theory Spec2Isabelle
  imports Complex_Main "HOL-Library.Multiset"
begin

section \<open>Python values, exceptions and built-ins used by custom\_step.py\<close>

text \<open>
  The payloads handled by the program are decoded JSON documents. A Python \<open>dict\<close> is
  an association list read with \<open>map_of\<close> (the keys of a decoded object are distinct),
  Python's unbounded \<open>int\<close> is \<open>int\<close>, and a character is a code point below 256.
  A finite Python \<open>float\<close> that comes from a payload is a \<open>real\<close>, and the geodesy
  and the aggregator compute on such numbers without rounding. The stride conversions and the
  arithmetic of the search (target distance, sums, scores and their comparison) are binary64
  computations, with rounding, infinities and NaN.
\<close>

datatype json =
    JNull
  | JBool bool
  | JInt int
  | JFloat real
  | JStr string
  | JList "json list"
  | JObj "(string \<times> json) list"

text \<open>
  The exceptions. \<open>KeyboardInterrupt\<close> and \<open>SystemExit\<close> derive from
  \<open>BaseException\<close> only, all others from \<open>Exception\<close>; \<open>OtherException\<close>
  stands for any further subclass of \<open>Exception\<close> the HTTP layer may raise.
  \<open>NonFinite\<close> is not an exception of Python: it ends a run in which \<open>float()\<close>
  returned an infinity or NaN for a payload value, a number that the real-valued geodesy does
  not describe. No \<open>except\<close> clause handles it, so such a run has no result here.
\<close>

datatype exn =
    KeyError string
  | IndexError
  | TypeError
  | AttributeError
  | ValueError
  | ZeroDivisionError
  | OverflowError
  | RequestException
  | OtherException nat
  | KeyboardInterrupt
  | SystemExit
  | NonFinite

datatype exn_class = ExcKeyError | ExcRequestException | ExcException

text \<open>\<open>catches c e\<close>: does the clause \<open>except c\<close> handle the exception \<open>e\<close>?\<close>

fun catches :: "exn_class \<Rightarrow> exn \<Rightarrow> bool" where
  "catches ExcKeyError (KeyError k) = True"
| "catches ExcKeyError e = False"
| "catches ExcRequestException RequestException = True"
| "catches ExcRequestException e = False"
| "catches ExcException KeyboardInterrupt = False"
| "catches ExcException SystemExit = False"
| "catches ExcException NonFinite = False"
| "catches ExcException e = True"

text \<open>Sequencing of computations that may raise: the first exception wins.\<close>

definition ebind :: "exn + 'a \<Rightarrow> ('a \<Rightarrow> exn + 'b) \<Rightarrow> exn + 'b" where
  "ebind m f = (case m of Inl e \<Rightarrow> Inl e | Inr x \<Rightarrow> f x)"

text \<open>Truth value of an object, as tested by \<open>if not x\<close>.\<close>

fun truthy :: "json \<Rightarrow> bool" where
  "truthy JNull = False"
| "truthy (JBool b) = b"
| "truthy (JInt i) = (i \<noteq> 0)"
| "truthy (JFloat r) = (r \<noteq> 0)"
| "truthy (JStr s) = (s \<noteq> [])"
| "truthy (JList xs) = (xs \<noteq> [])"
| "truthy (JObj kvs) = (kvs \<noteq> [])"

text \<open>\<open>d.get(k)\<close> and \<open>d.get(k, default)\<close>: only a dict has the method.\<close>

fun py_get_default :: "json \<Rightarrow> string \<Rightarrow> json \<Rightarrow> exn + json" where
  "py_get_default (JObj kvs) k d = Inr (case map_of kvs k of None \<Rightarrow> d | Some v \<Rightarrow> v)"
| "py_get_default j k d = Inl AttributeError"

definition py_get :: "json \<Rightarrow> string \<Rightarrow> exn + json" where
  "py_get j k = py_get_default j k JNull"

text \<open>\<open>x[k]\<close> with a string key: \<open>KeyError\<close> on a dict without the key,
  \<open>TypeError\<close> on everything else (a list or a string wants an integer index, the other
  values are not subscriptable).\<close>

fun py_getitem :: "json \<Rightarrow> string \<Rightarrow> exn + json" where
  "py_getitem (JObj kvs) k = (case map_of kvs k of None \<Rightarrow> Inl (KeyError k) | Some v \<Rightarrow> Inr v)"
| "py_getitem j k = Inl TypeError"

text \<open>\<open>x[0]\<close>: a dict decoded from JSON has string keys only, so \<open>0\<close> is never a key.\<close>

fun py_getitem0 :: "json \<Rightarrow> exn + json" where
  "py_getitem0 (JList xs) = (case xs of [] \<Rightarrow> Inl IndexError | x # _ \<Rightarrow> Inr x)"
| "py_getitem0 (JStr s) = (case s of [] \<Rightarrow> Inl IndexError | c # _ \<Rightarrow> Inr (JStr [c]))"
| "py_getitem0 (JObj kvs) = Inl (KeyError ''0'')"
| "py_getitem0 j = Inl TypeError"

text \<open>The elements a \<open>for\<close> loop visits: a dict yields its keys, a string its characters.\<close>

fun py_iter :: "json \<Rightarrow> exn + json list" where
  "py_iter (JList xs) = Inr xs"
| "py_iter (JObj kvs) = Inr (map (\<lambda>kv. JStr (fst kv)) kvs)"
| "py_iter (JStr s) = Inr (map (\<lambda>c. JStr [c]) s)"
| "py_iter j = Inl TypeError"

section \<open>Binary64 arithmetic\<close>

text \<open>
  The stride conversions and the search multiply, divide, add, subtract and compare Python
  floats, and what they return depends on the rounding of each operation. Here a float is a
  finite real that binary64 represents, or an infinity, or NaN. \<open>round_b64\<close> rounds a real to the nearest representable value,
  ties to the even significand: the spacing \<open>ulp\<close> of the 53-bit significands at the
  exponent of \<open>x\<close> (at least the exponent of the subnormal numbers), times the integer
  nearest to \<open>x / ulp x\<close>. A result of magnitude \<open>2 ^ 1024\<close> or more overflows to an
  infinity. Signed zeros are not distinguished.
\<close>

datatype b64 = Fin real | PInf | NInf | NaN

definition expo :: "real \<Rightarrow> int" where
  "expo x = \<lfloor>log 2 \<bar>x\<bar>\<rfloor>"

definition ulp :: "real \<Rightarrow> real" where
  "ulp x = 2 powr of_int (max (expo x) (- 1022) - 52)"

definition rne :: "real \<Rightarrow> int" where
  "rne y = (let f = \<lfloor>y\<rfloor>; r = y - of_int f
            in if r < 1 / 2 then f else if 1 / 2 < r then f + 1
               else if even f then f else f + 1)"

definition round_b64 :: "real \<Rightarrow> real" where
  "round_b64 x = (if x = 0 then 0 else ulp x * of_int (rne (x / ulp x)))"

definition b64_round :: "real \<Rightarrow> b64" where
  "b64_round x =
     (let r = round_b64 x
      in if 2 ^ 1024 \<le> r then PInf else if r \<le> - (2 ^ 1024) then NInf else Fin r)"

text \<open>\<open>int(x)\<close> on a finite float truncates towards zero.\<close>

definition py_int :: "real \<Rightarrow> int" where
  "py_int x = (if 0 \<le> x then \<lfloor>x\<rfloor> else \<lceil>x\<rceil>)"

text \<open>
  \<open>float(n)\<close> for an \<open>int\<close> (it raises \<open>OverflowError\<close> instead of returning an
  infinity), \<open>x * y\<close>, \<open>x / y\<close> and \<open>int(x)\<close> on floats.
\<close>

definition b64_of_int :: "int \<Rightarrow> exn + b64" where
  "b64_of_int n =
     (case b64_round (of_int n) of Fin r \<Rightarrow> Inr (Fin r) | _ \<Rightarrow> Inl OverflowError)"

fun b64_mul :: "b64 \<Rightarrow> b64 \<Rightarrow> b64" where
  "b64_mul (Fin a) (Fin b) = b64_round (a * b)"
| "b64_mul NaN y = NaN"
| "b64_mul x NaN = NaN"
| "b64_mul (Fin a) PInf = (if 0 < a then PInf else if a < 0 then NInf else NaN)"
| "b64_mul (Fin a) NInf = (if 0 < a then NInf else if a < 0 then PInf else NaN)"
| "b64_mul PInf (Fin b) = (if 0 < b then PInf else if b < 0 then NInf else NaN)"
| "b64_mul NInf (Fin b) = (if 0 < b then NInf else if b < 0 then PInf else NaN)"
| "b64_mul PInf PInf = PInf"
| "b64_mul NInf NInf = PInf"
| "b64_mul PInf NInf = NInf"
| "b64_mul NInf PInf = NInf"

fun b64_div :: "b64 \<Rightarrow> b64 \<Rightarrow> exn + b64" where
  "b64_div (Fin a) (Fin b) = (if b = 0 then Inl ZeroDivisionError else Inr (b64_round (a / b)))"
| "b64_div NaN y = (if y = Fin 0 then Inl ZeroDivisionError else Inr NaN)"
| "b64_div x NaN = Inr NaN"
| "b64_div (Fin a) y = Inr (Fin 0)"
| "b64_div PInf (Fin b) = (if b = 0 then Inl ZeroDivisionError else if 0 < b then Inr PInf else Inr NInf)"
| "b64_div NInf (Fin b) = (if b = 0 then Inl ZeroDivisionError else if 0 < b then Inr NInf else Inr PInf)"
| "b64_div x y = Inr NaN"

fun b64_int :: "b64 \<Rightarrow> exn + int" where
  "b64_int (Fin x) = Inr (py_int x)"
| "b64_int NaN = Inl ValueError"
| "b64_int x = Inl OverflowError"

text \<open>
  \<open>x + y\<close>, \<open>-x\<close>, \<open>x - y\<close>, \<open>abs(x)\<close>, \<open>x < y\<close> and \<open>x <= y\<close> on
  floats. A comparison with NaN is false.
\<close>

fun b64_add :: "b64 \<Rightarrow> b64 \<Rightarrow> b64" where
  "b64_add (Fin a) (Fin b) = b64_round (a + b)"
| "b64_add NaN y = NaN"
| "b64_add x NaN = NaN"
| "b64_add PInf NInf = NaN"
| "b64_add NInf PInf = NaN"
| "b64_add PInf y = PInf"
| "b64_add NInf y = NInf"
| "b64_add (Fin a) y = y"

fun b64_neg :: "b64 \<Rightarrow> b64" where
  "b64_neg (Fin a) = Fin (- a)"
| "b64_neg PInf = NInf"
| "b64_neg NInf = PInf"
| "b64_neg NaN = NaN"

definition b64_sub :: "b64 \<Rightarrow> b64 \<Rightarrow> b64" where
  "b64_sub x y = b64_add x (b64_neg y)"

fun b64_abs :: "b64 \<Rightarrow> b64" where
  "b64_abs (Fin a) = Fin \<bar>a\<bar>"
| "b64_abs PInf = PInf"
| "b64_abs NInf = PInf"
| "b64_abs NaN = NaN"

fun b64_lt :: "b64 \<Rightarrow> b64 \<Rightarrow> bool" where
  "b64_lt (Fin a) (Fin b) = (a < b)"
| "b64_lt (Fin a) PInf = True"
| "b64_lt NInf (Fin b) = True"
| "b64_lt NInf PInf = True"
| "b64_lt x y = False"


text \<open>
  The three stride functions on floats. In \<open>calculate_step_length\<close> the literal
  \<open>0.414\<close> is the float nearest to it and \<open>100\<close> is exact; in
  \<open>calculate_distance_from_steps\<close> the \<open>int\<close> is converted first.
  \<open>steps_round_trip n s\<close> is
  \<open>calculate_steps(calculate_distance_from_steps(n, s), s)\<close>.
\<close>

definition calculate_step_length_b64 :: "b64 \<Rightarrow> exn + b64" where
  "calculate_step_length_b64 height_cm =
     ebind (b64_div height_cm (Fin 100)) (\<lambda>x. Inr (b64_mul x (b64_round 0.414)))"

definition calculate_steps_b64 :: "b64 \<Rightarrow> b64 \<Rightarrow> exn + int" where
  "calculate_steps_b64 distance_meters step_length =
     ebind (b64_div distance_meters step_length) b64_int"

definition calculate_distance_from_steps_b64 :: "int \<Rightarrow> b64 \<Rightarrow> exn + b64" where
  "calculate_distance_from_steps_b64 steps step_length =
     ebind (b64_of_int steps) (\<lambda>x. Inr (b64_mul x step_length))"

definition steps_round_trip :: "int \<Rightarrow> real \<Rightarrow> exn + int" where
  "steps_round_trip n s =
     ebind (calculate_distance_from_steps_b64 n (Fin s)) (\<lambda>d. calculate_steps_b64 d (Fin s))"

definition unit_roundoff :: real where
  "unit_roundoff = 1 / 2 ^ 53"

definition stride_150 :: real where
  "stride_150 = 5593470737194156 / 2 ^ 53"

subsection \<open>Strings: \<open>str.split()\<close> and \<open>float(str)\<close>\<close>

text \<open>The characters below 256 for which \<open>str.isspace()\<close> holds: the ASCII white
  space, the separators \<open>0x1C\<close> to \<open>0x1F\<close>, NEL (\<open>0x85\<close>) and the no-break space
  (\<open>0xA0\<close>).\<close>

definition is_space :: "char \<Rightarrow> bool" where
  "is_space c = (c \<in> set [CHR 0x09, CHR 0x0A, CHR 0x0B, CHR 0x0C, CHR 0x0D,
                           CHR 0x1C, CHR 0x1D, CHR 0x1E, CHR 0x1F, CHR '' '',
                           CHR 0x85, CHR 0xA0])"

text \<open>\<open>split_ws cur s\<close>: the tokens of \<open>s\<close>, \<open>cur\<close> being the token under construction.\<close>

fun split_ws :: "string \<Rightarrow> string \<Rightarrow> string list" where
  "split_ws cur [] = (if cur = [] then [] else [cur])"
| "split_ws cur (c # cs) =
     (if is_space c then (if cur = [] then split_ws [] cs else cur # split_ws [] cs)
      else split_ws (cur @ [c]) cs)"

definition str_split :: "string \<Rightarrow> string list" where
  "str_split s = split_ws [] s"

text \<open>\<open>x.split()\<close> on an arbitrary value: only a string has the method.\<close>

fun py_split :: "json \<Rightarrow> exn + string list" where
  "py_split (JStr s) = Inr (str_split s)"
| "py_split j = Inl AttributeError"

definition list_getitem0 :: "'a list \<Rightarrow> exn + 'a" where
  "list_getitem0 xs = (case xs of [] \<Rightarrow> Inl IndexError | x # _ \<Rightarrow> Inr x)"

definition is_digit :: "char \<Rightarrow> bool" where
  "is_digit c = (48 \<le> (of_char c :: nat) \<and> (of_char c :: nat) \<le> 57)"

definition digit_val :: "char \<Rightarrow> nat" where
  "digit_val c = of_char c - 48"

definition digits_val :: "string \<Rightarrow> nat" where
  "digits_val ds = foldl (\<lambda>a c. 10 * a + digit_val c) 0 ds"

definition strip :: "string \<Rightarrow> string" where
  "strip s = rev (dropWhile is_space (rev (dropWhile is_space s)))"

text \<open>An optional sign followed by the rest.\<close>

fun take_sign :: "string \<Rightarrow> bool \<times> string" where
  "take_sign (c # cs) =
     (if c = CHR ''-'' then (True, cs) else if c = CHR ''+'' then (False, cs) else (False, c # cs))"
| "take_sign [] = (False, [])"

text \<open>
  A group of digits in which single underscores may separate digits: the digits read, without
  the underscores, and what follows the group.
\<close>

fun take_digits :: "string \<Rightarrow> string \<times> string" where
  "take_digits [] = ([], [])"
| "take_digits [c] = (if is_digit c then ([c], []) else ([], [c]))"
| "take_digits (c # d # cs) =
     (if is_digit c then
        (if d = CHR ''_'' then
           (case cs of
              e # es \<Rightarrow>
                if is_digit e then (case take_digits cs of (ds, r) \<Rightarrow> (c # ds, r))
                else ([c], d # cs)
            | [] \<Rightarrow> ([c], [d]))
         else (case take_digits (d # cs) of (ds, r) \<Rightarrow> (c # ds, r)))
      else ([], c # d # cs))"

text \<open>The exponent part: empty, or \<open>e\<close>/\<open>E\<close>, an optional sign and a group of digits.\<close>

definition parse_exponent :: "string \<Rightarrow> int option" where
  "parse_exponent s =
     (case s of
        [] \<Rightarrow> Some 0
      | c # cs \<Rightarrow>
          if c = CHR ''e'' \<or> c = CHR ''E'' then
            (let (neg, ds0) = take_sign cs;
                 (ds, r) = take_digits ds0
             in if ds \<noteq> [] \<and> r = []
                then Some (if neg then - int (digits_val ds) else int (digits_val ds))
                else None)
          else None)"

text \<open>ASCII lower case, for the literals that \<open>float\<close> reads in any case.\<close>

definition lower :: "char \<Rightarrow> char" where
  "lower c = (if 65 \<le> (of_char c :: nat) \<and> (of_char c :: nat) \<le> 90
              then char_of (of_char c + 32 :: nat) else c)"

text \<open>
  \<open>float(s)\<close>: surrounding whitespace, a sign, then either one of the literals
  \<open>inf\<close>, \<open>infinity\<close> and \<open>nan\<close>, or digits with an optional fraction and an optional
  exponent. The result is the number read (\<open>FloatValue\<close>), or \<open>FloatSpecial\<close> when
  \<open>float\<close> returns an infinity or NaN (the three literals, and a decimal too large for
  binary64), or \<open>FloatError\<close> when Python rejects the string with \<open>ValueError\<close>.
\<close>

datatype float_literal = FloatValue real | FloatSpecial | FloatError

definition float_of_string :: "string \<Rightarrow> float_literal" where
  "float_of_string s =
     (let (neg, body) = take_sign (strip s)
      in if map lower body \<in> set [''inf'', ''infinity'', ''nan''] then FloatSpecial
         else
           (let (ip, r1) = take_digits body;
                (fp, r2) = (case r1 of
                              c # cs \<Rightarrow> if c = CHR ''.'' then take_digits cs else ([], r1)
                            | [] \<Rightarrow> ([], []))
            in if ip = [] \<and> fp = [] then FloatError
               else (case parse_exponent r2 of
                       None \<Rightarrow> FloatError
                     | Some ex \<Rightarrow>
                         (let m = real (digits_val (ip @ fp)) / 10 ^ length fp;
                              v = (if 0 \<le> ex then m * 10 ^ nat ex else m / 10 ^ nat (- ex));
                              x = (if neg then - v else v)
                          in case b64_round x of Fin r \<Rightarrow> FloatValue x | _ \<Rightarrow> FloatSpecial))))"

text \<open>The built-in \<open>float(x)\<close>; on an \<open>int\<close> too large for binary64 it raises
  \<open>OverflowError\<close>.\<close>

fun py_float :: "json \<Rightarrow> exn + real" where
  "py_float (JFloat r) = Inr r"
| "py_float (JInt i) = (case b64_of_int i of Inl e \<Rightarrow> Inl e | Inr x \<Rightarrow> Inr (of_int i))"
| "py_float (JBool b) = Inr (if b then 1 else 0)"
| "py_float (JStr s) =
     (case float_of_string s of
        FloatValue r \<Rightarrow> Inr r
      | FloatSpecial \<Rightarrow> Inl NonFinite
      | FloatError \<Rightarrow> Inl ValueError)"
| "py_float j = Inl TypeError"

text \<open>\<open>x // 60\<close> as used on the durations; the quotient is kept as a number.\<close>

fun py_floordiv60 :: "json \<Rightarrow> exn + real" where
  "py_floordiv60 (JInt i) = Inr (of_int (i div 60))"
| "py_floordiv60 (JBool b) = Inr 0"
| "py_floordiv60 (JFloat r) = Inr (of_int \<lfloor>r / 60\<rfloor>)"
| "py_floordiv60 j = Inl TypeError"

section \<open>Everything the program prints\<close>

datatype out_line =
    PKeyError string
  | PStructureNotFound
  | PErrorFetching exn
  | PNoJourneys
  | POptimalHeader
  | PDuration real
  | PTake json json json json real real
  | PWalk real int real
  | PWait real
  | PSummary int real real real real real
  | PFarthestMode nat
  | PClosestMode nat
  | PEvaluating real real
  | PFoundBetter b64 b64
  | PErrorProcessing exn

section \<open>Emission table and stride model\<close>

definition EMISSIONS :: "(string \<times> real) list" where
  "EMISSIONS = [(''RER'', 3.8), (''Metro'', 3.2), (''Bus'', 95.3), (''Tramway'', 3.3),
                (''Train'', 3.8), (''Car'', 206.0)]"

text \<open>\<open>EMISSIONS.get(mode, 0)\<close> and \<open>EMISSIONS['Car']\<close>.\<close>

definition emissions_get :: "string \<Rightarrow> real" where
  "emissions_get mode = (case map_of EMISSIONS mode of None \<Rightarrow> 0 | Some f \<Rightarrow> f)"

definition emissions_item :: "string \<Rightarrow> exn + real" where
  "emissions_item mode = (case map_of EMISSIONS mode of None \<Rightarrow> Inl (KeyError mode) | Some f \<Rightarrow> Inr f)"

text \<open>\<open>calculate_step_length\<close> has no check of its argument and no \<open>raise\<close>.\<close>

definition calculate_step_length :: "real \<Rightarrow> exn + real" where
  "calculate_step_length height_cm = Inr ((height_cm / 100) * 0.414)"

text \<open>Float division by zero raises \<open>ZeroDivisionError\<close>.\<close>

definition calculate_steps :: "real \<Rightarrow> real \<Rightarrow> exn + int" where
  "calculate_steps distance_meters step_length =
     (if step_length = 0 then Inl ZeroDivisionError
      else Inr (py_int (distance_meters / step_length)))"

text \<open>
  The product \<open>steps * step_length\<close> read over the reals: what the function computes when
  nothing is rounded. The program computes it on floats, which is
  \<open>calculate_distance_from_steps_b64\<close>.
\<close>

definition calculate_distance_from_steps :: "int \<Rightarrow> real \<Rightarrow> real" where
  "calculate_distance_from_steps steps step_length = of_int steps * step_length"

section \<open>Geodesy\<close>

definition radians :: "real \<Rightarrow> real" where
  "radians x = x * pi / 180"

text \<open>\<open>math.atan2(y, x)\<close>.\<close>

definition atan2 :: "real \<Rightarrow> real \<Rightarrow> real" where
  "atan2 y x =
     (if 0 < x then arctan (y / x)
      else if x < 0 then (if 0 \<le> y then arctan (y / x) + pi else arctan (y / x) - pi)
      else if 0 < y then pi / 2
      else if y < 0 then - (pi / 2)
      else 0)"

text \<open>\<open>math.sqrt\<close> raises \<open>ValueError\<close> on a negative argument.\<close>

definition math_sqrt :: "real \<Rightarrow> exn + real" where
  "math_sqrt x = (if x < 0 then Inl ValueError else Inr (sqrt x))"

definition haversine_distance :: "real \<Rightarrow> real \<Rightarrow> real \<Rightarrow> real \<Rightarrow> exn + real" where
  "haversine_distance lat1' lon1' lat2' lon2' =
     (let R = 6371000;
          lat1 = radians lat1'; lon1 = radians lon1';
          lat2 = radians lat2'; lon2 = radians lon2';
          dlat = lat2 - lat1;
          dlon = lon2 - lon1;
          a = (sin (dlat / 2))\<^sup>2 + cos lat1 * cos lat2 * (sin (dlon / 2))\<^sup>2
      in ebind (math_sqrt a) (\<lambda>sa.
         ebind (math_sqrt (1 - a)) (\<lambda>sb.
         Inr (R * (2 * atan2 sa sb)))))"

section \<open>Walking distance of a section\<close>

text \<open>The \<open>if\<close>/\<open>else\<close> that reads an endpoint's coordinate object.\<close>

definition endpoint_coord :: "json \<Rightarrow> exn + json" where
  "endpoint_coord ep =
     ebind (py_get ep ''embedded_type'') (\<lambda>ty.
       if ty = JStr ''address''
       then ebind (py_getitem ep ''address'') (\<lambda>a. py_getitem a ''coord'')
       else ebind (py_getitem ep ''stop_point'') (\<lambda>sp. py_getitem sp ''coord''))"

text \<open>The body of the \<open>try\<close> block of \<open>calculate_walking_distance\<close>.\<close>

definition walking_distance_body :: "json \<Rightarrow> exn + real" where
  "walking_distance_body journey_section =
     ebind (py_getitem journey_section ''from'') (\<lambda>f.
     ebind (endpoint_coord f) (\<lambda>from_coord.
     ebind (py_getitem journey_section ''to'') (\<lambda>t.
     ebind (endpoint_coord t) (\<lambda>to_coord.
     ebind (py_getitem from_coord ''lat'') (\<lambda>a1. ebind (py_float a1) (\<lambda>lat1.
     ebind (py_getitem from_coord ''lon'') (\<lambda>a2. ebind (py_float a2) (\<lambda>lon1.
     ebind (py_getitem to_coord ''lat'') (\<lambda>a3. ebind (py_float a3) (\<lambda>lat2.
     ebind (py_getitem to_coord ''lon'') (\<lambda>a4. ebind (py_float a4) (\<lambda>lon2.
     haversine_distance lat1 lon1 lat2 lon2))))))))))))"

text \<open>
  \<open>calculate_walking_distance\<close> returns its value (or the exception it lets through)
  together with the lines it printed. The two \<open>.get\<close> tests come before the \<open>try\<close>.
\<close>

definition calculate_walking_distance :: "json \<Rightarrow> (exn + real) \<times> out_line list" where
  "calculate_walking_distance journey_section =
     (case py_get journey_section ''from'' of
        Inl e \<Rightarrow> (Inl e, [])
      | Inr f \<Rightarrow>
          if \<not> truthy f then (Inr 0, [])
          else (case py_get journey_section ''to'' of
                  Inl e \<Rightarrow> (Inl e, [])
                | Inr t \<Rightarrow>
                    if \<not> truthy t then (Inr 0, [])
                    else (case walking_distance_body journey_section of
                            Inr d \<Rightarrow> (Inr d, [])
                          | Inl e \<Rightarrow>
                              if catches ExcKeyError e
                              then (Inr 0, [PKeyError (case e of KeyError k \<Rightarrow> k | _ \<Rightarrow> []),
                                            PStructureNotFound])
                              else (Inl e, []))))"

section \<open>Computations that print and may raise\<close>

text \<open>
  A computation that prints yields its result (or the exception that ended it) and the lines
  printed so far. \<open>obind\<close> runs the second computation after the first, unless the first
  raised; \<open>lift\<close> embeds a computation that prints nothing; \<open>emit\<close> is \<open>print\<close>.
\<close>

definition obind ::
  "(exn + 'a) \<times> out_line list \<Rightarrow> ('a \<Rightarrow> (exn + 'b) \<times> out_line list) \<Rightarrow> (exn + 'b) \<times> out_line list" where
  "obind m f =
     (case m of
        (Inl e, out) \<Rightarrow> (Inl e, out)
      | (Inr x, out) \<Rightarrow> (case f x of (r, out') \<Rightarrow> (r, out @ out')))"

definition lift :: "exn + 'a \<Rightarrow> (exn + 'a) \<times> out_line list" where
  "lift m = (m, [])"

definition emit :: "out_line \<Rightarrow> (exn + unit) \<times> out_line list" where
  "emit l = (Inr (), [l])"

section \<open>The journey service\<close>

text \<open>
  \<open>http api_key from_lat from_lon to_lat to_lon\<close> stands for the request sent by
  \<open>get_itinerary\<close>, the status check and the decoding of the body: it is the part of the
  program that lives outside of it. \<open>get_itinerary\<close> prints and re-raises a
  \<open>RequestException\<close> and lets every other exception through.
\<close>

type_synonym http = "string \<Rightarrow> real \<Rightarrow> real \<Rightarrow> real \<Rightarrow> real \<Rightarrow> exn + json"

definition get_itinerary ::
  "http \<Rightarrow> string \<Rightarrow> real \<Rightarrow> real \<Rightarrow> real \<Rightarrow> real \<Rightarrow> (exn + json) \<times> out_line list" where
  "get_itinerary http api_key from_lat from_lon to_lat to_lon =
     (case http api_key from_lat from_lon to_lat to_lon of
        Inr r \<Rightarrow> (Inr r, [])
      | Inl e \<Rightarrow> if catches ExcRequestException e then (Inl e, [PErrorFetching e]) else (Inl e, []))"

section \<open>The itinerary aggregator: \<open>format_itinerary_with_steps\<close>\<close>

record totals =
  total_walking_distance :: real
  total_distance :: real
  total_co2 :: real

text \<open>\<open>section['display_informations'].get('physical_mode', '').split()[0]\<close>\<close>

definition section_mode :: "json \<Rightarrow> exn + string" where
  "section_mode sec =
     ebind (py_getitem sec ''display_informations'') (\<lambda>di.
     ebind (py_get_default di ''physical_mode'' (JStr [])) (\<lambda>pm.
     ebind (py_split pm) list_getitem0))"

text \<open>\<open>section['duration'] // 60\<close>\<close>

definition section_minutes :: "json \<Rightarrow> exn + real" where
  "section_minutes sec = ebind (py_getitem sec ''duration'') py_floordiv60"

text \<open>The values interpolated into the line printed for a public transport section.\<close>

definition take_line :: "json \<Rightarrow> real \<Rightarrow> exn + out_line" where
  "take_line sec distance =
     ebind (py_getitem sec ''display_informations'') (\<lambda>di.
     ebind (py_getitem di ''physical_mode'') (\<lambda>pm.
     ebind (py_getitem sec ''display_informations'') (\<lambda>di'.
     ebind (py_getitem di' ''code'') (\<lambda>code.
     ebind (py_getitem sec ''from'') (\<lambda>f.
     ebind (py_getitem f ''name'') (\<lambda>fname.
     ebind (py_getitem sec ''to'') (\<lambda>t.
     ebind (py_getitem t ''name'') (\<lambda>tname.
     ebind (section_minutes sec) (\<lambda>mins.
     Inr (PTake pm code fname tname mins distance))))))))))"

text \<open>One turn of the loop over the sections: the three branches of the \<open>if\<close> chain.\<close>

definition format_section :: "real \<Rightarrow> json \<Rightarrow> totals \<Rightarrow> (exn + totals) \<times> out_line list" where
  "format_section step_length sec tot =
     obind (lift (py_getitem sec ''type'')) (\<lambda>ty.
       if ty = JStr ''public_transport'' then
         obind (calculate_walking_distance sec) (\<lambda>d.
           let distance = d / 1000;
               tot1 = tot\<lparr>total_distance := total_distance tot + distance\<rparr>
           in obind (lift (section_mode sec)) (\<lambda>mode.
                let emission_factor = emissions_get mode;
                    tot2 = tot1\<lparr>total_co2 := total_co2 tot1 + distance * emission_factor\<rparr>
                in obind (lift (take_line sec distance)) (\<lambda>l.
                   obind (emit l) (\<lambda>_. (Inr tot2, [])))))
       else
         obind (lift (if ty = JStr ''street_network''
                      then ebind (py_getitem sec ''mode'') (\<lambda>m. Inr (m = JStr ''walking''))
                      else Inr False)) (\<lambda>walking.
           if walking then
             obind (calculate_walking_distance sec) (\<lambda>walking_distance.
               let tot1 = tot\<lparr>total_walking_distance := total_walking_distance tot + walking_distance\<rparr>
               in obind (lift (calculate_steps walking_distance step_length)) (\<lambda>steps.
                  obind (lift (section_minutes sec)) (\<lambda>mins.
                  obind (emit (PWalk mins steps (walking_distance / 1000))) (\<lambda>_. (Inr tot1, [])))))
           else
             obind (lift (py_getitem sec ''type'')) (\<lambda>ty'.
               if ty' = JStr ''waiting'' then
                 obind (lift (section_minutes sec)) (\<lambda>mins.
                 obind (emit (PWait mins)) (\<lambda>_. (Inr tot, [])))
               else (Inr tot, []))))"

fun format_sections :: "real \<Rightarrow> json list \<Rightarrow> totals \<Rightarrow> (exn + totals) \<times> out_line list" where
  "format_sections step_length [] tot = (Inr tot, [])"
| "format_sections step_length (sec # secs) tot =
     obind (format_section step_length sec tot) (\<lambda>tot'. format_sections step_length secs tot')"

text \<open>
  The function returns \<open>None\<close> on both of its paths; what it computes is what it prints.
  \<open>PSummary\<close> carries the six numbers of the summary: steps, walking distance (km),
  journey distance (km), transit CO2, car CO2 and the CO2 saved.
\<close>

definition format_itinerary_with_steps :: "json \<Rightarrow> real \<Rightarrow> (exn + unit) \<times> out_line list" where
  "format_itinerary_with_steps journey_data step_length =
     obind (lift (py_get journey_data ''journeys'')) (\<lambda>js.
       if \<not> truthy js then emit PNoJourneys
       else
         obind (lift (ebind (py_getitem journey_data ''journeys'') py_getitem0)) (\<lambda>journey.
         obind (emit POptimalHeader) (\<lambda>_.
         obind (lift (ebind (py_getitem journey ''duration'') py_floordiv60)) (\<lambda>mins.
         obind (emit (PDuration mins)) (\<lambda>_.
         obind (lift (ebind (py_getitem journey ''sections'') py_iter)) (\<lambda>secs.
         obind (format_sections step_length secs
                  \<lparr>total_walking_distance = 0, total_distance = 0, total_co2 = 0\<rparr>) (\<lambda>tot.
         obind (lift (calculate_steps (total_walking_distance tot) step_length)) (\<lambda>total_steps.
         obind (lift (emissions_item ''Car'')) (\<lambda>car.
           let car_co2 = total_distance tot * car
           in emit (PSummary total_steps (total_walking_distance tot / 1000) (total_distance tot)
                      (total_co2 tot) car_co2 (car_co2 - total_co2 tot)))))))))))"

section \<open>The route search: \<open>find_best_route\<close>\<close>

text \<open>
  The function reads the module globals \<open>from_lat\<close>, \<open>from_lon\<close>, \<open>to_lat\<close> and
  \<open>to_lon\<close>, which the script sets before the call.
\<close>

record env =
  from_lat :: real
  from_lon :: real
  to_lat :: real
  to_lon :: real

text \<open>
  The local variables of the search and what has been printed. \<open>best_score\<close> is a
  float; it starts at \<open>float('inf')\<close>.
\<close>

record search_state =
  best_journey :: "json option"
  best_score :: b64
  printed :: "out_line list"

definition MAX_STATIONS :: nat where
  "MAX_STATIONS = 10"

text \<open>\<open>float(station['stop_point']['coord'][k])\<close>\<close>

definition station_coord :: "json \<Rightarrow> string \<Rightarrow> exn + real" where
  "station_coord station k =
     ebind (py_getitem station ''stop_point'') (\<lambda>sp.
     ebind (py_getitem sp ''coord'') (\<lambda>c.
     ebind (py_getitem c k) py_float))"

text \<open>The sort key: distance of a station to the given point.\<close>

definition station_key :: "real \<Rightarrow> real \<Rightarrow> json \<Rightarrow> exn + real" where
  "station_key lat lon x =
     ebind (station_coord x ''lat'') (\<lambda>a.
     ebind (station_coord x ''lon'') (\<lambda>b.
     haversine_distance a b lat lon))"

fun map_exn :: "('a \<Rightarrow> exn + 'b) \<Rightarrow> 'a list \<Rightarrow> exn + 'b list" where
  "map_exn f [] = Inr []"
| "map_exn f (x # xs) = ebind (f x) (\<lambda>y. ebind (map_exn f xs) (\<lambda>ys. Inr (y # ys)))"

text \<open>
  \<open>stations.sort(key=...)\<close>: the keys of all elements are computed first, in list order;
  if one of them raises, the list is left as it was and the exception goes on. Otherwise the
  list is replaced by its stable ascending sort on the keys.
\<close>

definition sort_stations :: "real \<Rightarrow> real \<Rightarrow> json list \<Rightarrow> exn + json list" where
  "sort_stations lat lon stations =
     ebind (map_exn (station_key lat lon) stations) (\<lambda>keys.
     Inr (map snd (sort_key fst (zip keys stations))))"

text \<open>The slices \<open>stations[-MAX_STATIONS:]\<close> and \<open>stations[:MAX_STATIONS]\<close>.\<close>

definition select_stations :: "int \<Rightarrow> json list \<Rightarrow> json list" where
  "select_stations target_steps stations =
     (if target_steps > 3000 then drop (length stations - MAX_STATIONS) stations
      else take MAX_STATIONS stations)"

text \<open>The filter of the generator: a walking section of the street network.\<close>

definition is_walking_section :: "json \<Rightarrow> exn + bool" where
  "is_walking_section sec =
     ebind (py_getitem sec ''type'') (\<lambda>ty.
       if ty = JStr ''street_network''
       then ebind (py_getitem sec ''mode'') (\<lambda>m. Inr (m = JStr ''walking''))
       else Inr False)"

text \<open>
  The float that \<open>calculate_walking_distance\<close> hands to \<open>sum\<close>: the float nearest to the
  distance (an \<open>int\<close> 0 counts as \<open>0.0\<close>).
\<close>

definition walking_distance_float :: "json \<Rightarrow> (exn + b64) \<times> out_line list" where
  "walking_distance_float sec =
     obind (calculate_walking_distance sec) (\<lambda>d. (Inr (b64_round d), []))"

text \<open>The terms the generator yields, in the order of the sections.\<close>

fun walking_terms :: "json list \<Rightarrow> (exn + b64 list) \<times> out_line list" where
  "walking_terms [] = (Inr [], [])"
| "walking_terms (sec # secs) =
     obind (lift (is_walking_section sec)) (\<lambda>w.
       if w then obind (walking_distance_float sec) (\<lambda>d.
                 obind (walking_terms secs) (\<lambda>ds. (Inr (d # ds), [])))
       else walking_terms secs)"

text \<open>
  The built-in \<open>sum\<close> on the floats of the generator is a parameter, \<open>py_sum\<close>: the
  interpreter adds them from left to right, each addition rounded, up to Python 3.11, and with
  a compensated summation from Python 3.12 on. \<open>sum_left_to_right\<close> is the former.
\<close>

type_synonym float_sum = "b64 list \<Rightarrow> b64"

definition sum_left_to_right :: float_sum where
  "sum_left_to_right xs = foldl b64_add (Fin 0) xs"

definition journey_walking_distance :: "float_sum \<Rightarrow> json \<Rightarrow> (exn + b64) \<times> out_line list" where
  "journey_walking_distance py_sum journey =
     obind (lift (ebind (py_getitem journey ''sections'') py_iter)) (\<lambda>secs.
     obind (walking_terms secs) (\<lambda>ds. (Inr (py_sum ds), [])))"

text \<open>
  The loop over the journeys of one response: \<open>score = abs(total - target)\<close> and the test
  \<open>score < best_score\<close> are float operations. An exception leaves the loop with the state
  as it is at that moment: the assignments made for earlier journeys stay.
\<close>

fun score_journeys ::
  "float_sum \<Rightarrow> b64 \<Rightarrow> json list \<Rightarrow> search_state \<Rightarrow> exn option \<times> search_state" where
  "score_journeys py_sum target_distance [] st = (None, st)"
| "score_journeys py_sum target_distance (journey # journeys) st =
     (case journey_walking_distance py_sum journey of
        (Inl e, out) \<Rightarrow> (Some e, st\<lparr>printed := printed st @ out\<rparr>)
      | (Inr walking_total, out) \<Rightarrow>
          (let st1 = st\<lparr>printed := printed st @ out\<rparr>;
               score = b64_abs (b64_sub walking_total target_distance)
           in if b64_lt score (best_score st1)
              then score_journeys py_sum target_distance journeys
                     (st1\<lparr>best_score := score, best_journey := Some journey,
                          printed := printed st1 @ [PFoundBetter walking_total target_distance]\<rparr>)
              else score_journeys py_sum target_distance journeys st1))"

text \<open>The \<open>try\<close> block up to and including the call of \<open>get_itinerary\<close>.\<close>

definition pair_response ::
  "http \<Rightarrow> string \<Rightarrow> env \<Rightarrow> json \<Rightarrow> json \<Rightarrow> (exn + json) \<times> out_line list" where
  "pair_response http api_key g from_station to_station =
     obind (lift (station_coord from_station ''lat'')) (\<lambda>flat.
     obind (lift (station_coord from_station ''lon'')) (\<lambda>flon.
     obind (lift (haversine_distance (from_lat g) (from_lon g) flat flon)) (\<lambda>walk_to_station.
     obind (lift (station_coord to_station ''lat'')) (\<lambda>tlat.
     obind (lift (station_coord to_station ''lon'')) (\<lambda>tlon.
     obind (lift (haversine_distance tlat tlon (to_lat g) (to_lon g))) (\<lambda>walk_from_station.
     obind (emit (PEvaluating (walk_to_station / 1000) (walk_from_station / 1000))) (\<lambda>_.
     get_itinerary http api_key flat flon tlat tlon)))))))"

text \<open>The whole \<open>try\<close> block for one pair of stations.\<close>

definition pair_body ::
  "float_sum \<Rightarrow> http \<Rightarrow> string \<Rightarrow> env \<Rightarrow> b64 \<Rightarrow> json \<Rightarrow> json \<Rightarrow> search_state
     \<Rightarrow> exn option \<times> search_state" where
  "pair_body py_sum http api_key g target_distance from_station to_station st =
     (case pair_response http api_key g from_station to_station of
        (Inl e, out) \<Rightarrow> (Some e, st\<lparr>printed := printed st @ out\<rparr>)
      | (Inr result, out) \<Rightarrow>
          (let st1 = st\<lparr>printed := printed st @ out\<rparr>
           in case py_get result ''journeys'' of
                Inl e \<Rightarrow> (Some e, st1)
              | Inr js \<Rightarrow>
                  if \<not> truthy js then (None, st1)
                  else (case ebind (py_getitem result ''journeys'') py_iter of
                          Inl e \<Rightarrow> (Some e, st1)
                        | Inr journeys \<Rightarrow> score_journeys py_sum target_distance journeys st1)))"

text \<open>\<open>try: ... except Exception as e: print(...); continue\<close>: what does not derive from
  \<open>Exception\<close> goes on.\<close>

definition try_pair ::
  "float_sum \<Rightarrow> http \<Rightarrow> string \<Rightarrow> env \<Rightarrow> b64 \<Rightarrow> json \<Rightarrow> json \<Rightarrow> search_state
     \<Rightarrow> exn option \<times> search_state" where
  "try_pair py_sum http api_key g target_distance from_station to_station st =
     (case pair_body py_sum http api_key g target_distance from_station to_station st of
        (None, st') \<Rightarrow> (None, st')
      | (Some e, st') \<Rightarrow>
          if catches ExcException e
          then (None, st'\<lparr>printed := printed st' @ [PErrorProcessing e]\<rparr>)
          else (Some e, st'))"

text \<open>The inner and the outer \<open>for\<close> loop; an exception that gets out of \<open>try_pair\<close>
  ends both.\<close>

fun loop_to_stations ::
  "float_sum \<Rightarrow> http \<Rightarrow> string \<Rightarrow> env \<Rightarrow> b64 \<Rightarrow> json \<Rightarrow> json list \<Rightarrow> search_state
     \<Rightarrow> exn option \<times> search_state" where
  "loop_to_stations py_sum http api_key g target_distance from_station [] st = (None, st)"
| "loop_to_stations py_sum http api_key g target_distance from_station (to_station # rest) st =
     (case try_pair py_sum http api_key g target_distance from_station to_station st of
        (Some e, st') \<Rightarrow> (Some e, st')
      | (None, st') \<Rightarrow>
          loop_to_stations py_sum http api_key g target_distance from_station rest st')"

fun loop_from_stations ::
  "float_sum \<Rightarrow> http \<Rightarrow> string \<Rightarrow> env \<Rightarrow> b64 \<Rightarrow> json list \<Rightarrow> json list \<Rightarrow> search_state
     \<Rightarrow> exn option \<times> search_state" where
  "loop_from_stations py_sum http api_key g target_distance [] selected_to st = (None, st)"
| "loop_from_stations py_sum http api_key g target_distance (from_station # rest) selected_to st =
     (case loop_to_stations py_sum http api_key g target_distance from_station selected_to st of
        (Some e, st') \<Rightarrow> (Some e, st')
      | (None, st') \<Rightarrow>
          loop_from_stations py_sum http api_key g target_distance rest selected_to st')"

text \<open>The state when the loops start: nothing found yet, the line about the selection
  mode printed.\<close>

definition initial_state :: "int \<Rightarrow> search_state" where
  "initial_state target_steps =
     \<lparr>best_journey = None, best_score = PInf,
      printed = [if target_steps > 3000 then PFarthestMode MAX_STATIONS
                 else PClosestMode MAX_STATIONS]\<rparr>"

text \<open>
  What a call of \<open>find_best_route\<close> leaves behind: the value returned or the exception
  raised, the two argument lists as the caller sees them afterwards (\<open>list.sort\<close> works in
  place), and the lines printed. The target distance is computed first, on floats
  (\<open>calculate_distance_from_steps_b64\<close>: the conversion of \<open>target_steps\<close> can raise
  \<open>OverflowError\<close>); then come the two sorts; none of the three is inside the \<open>try\<close>
  block.
\<close>

record outcome =
  returned :: "exn + json option"
  from_stations_after :: "json list"
  to_stations_after :: "json list"
  out_lines :: "out_line list"

definition find_best_route ::
  "float_sum \<Rightarrow> http \<Rightarrow> env \<Rightarrow> json list \<Rightarrow> json list \<Rightarrow> int \<Rightarrow> b64 \<Rightarrow> string \<Rightarrow> outcome" where
  "find_best_route py_sum http g from_stations to_stations target_steps step_length api_key =
     (case calculate_distance_from_steps_b64 target_steps step_length of
        Inl e \<Rightarrow> \<lparr>returned = Inl e, from_stations_after = from_stations,
                  to_stations_after = to_stations, out_lines = []\<rparr>
      | Inr target_distance \<Rightarrow>
          (case sort_stations (from_lat g) (from_lon g) from_stations of
             Inl e \<Rightarrow> \<lparr>returned = Inl e, from_stations_after = from_stations,
                       to_stations_after = to_stations, out_lines = []\<rparr>
           | Inr from_sorted \<Rightarrow>
               (case sort_stations (to_lat g) (to_lon g) to_stations of
                  Inl e \<Rightarrow> \<lparr>returned = Inl e, from_stations_after = from_sorted,
                            to_stations_after = to_stations, out_lines = []\<rparr>
                | Inr to_sorted \<Rightarrow>
                    (let selected_from_stations = select_stations target_steps from_sorted;
                         selected_to_stations = select_stations target_steps to_sorted;
                         st0 = initial_state target_steps;
                         (ex, st) = loop_from_stations py_sum http api_key g target_distance
                                      selected_from_stations selected_to_stations st0
                     in \<lparr>returned = (case ex of Some e \<Rightarrow> Inl e | None \<Rightarrow> Inr (best_journey st)),
                          from_stations_after = from_sorted, to_stations_after = to_sorted,
                          out_lines = printed st\<rparr>))))"

section \<open>Sections with a missing endpoint\<close>

text \<open>Predicates on a section's fields, used to state which sections a property covers.\<close>

definition falsy_field :: "(string \<times> json) list \<Rightarrow> string \<Rightarrow> bool" where
  "falsy_field kvs k = (case map_of kvs k of None \<Rightarrow> True | Some v \<Rightarrow> \<not> truthy v)"

definition lacks_coord_variants :: "json \<Rightarrow> bool" where
  "lacks_coord_variants ep =
     (case ep of
        JObj f \<Rightarrow> f \<noteq> [] \<and> map_of f ''address'' = None \<and> map_of f ''stop_point'' = None
      | _ \<Rightarrow> False)"

definition variant_key :: "json \<Rightarrow> string" where
  "variant_key ep =
     (if py_get ep ''embedded_type'' = Inr (JStr ''address'') then ''address'' else ''stop_point'')"

text \<open>An endpoint is absent, or the first endpoint that fails to resolve lacks both variants.\<close>

definition endpoint_missing :: "(string \<times> json) list \<Rightarrow> bool" where
  "endpoint_missing kvs =
     (falsy_field kvs ''from'' \<or> falsy_field kvs ''to'' \<or>
      (case (map_of kvs ''from'', map_of kvs ''to'') of
         (Some f, Some t) \<Rightarrow>
            lacks_coord_variants f \<or> (\<not> isl (endpoint_coord f) \<and> lacks_coord_variants t)
       | _ \<Rightarrow> False))"

section \<open>Reference quantities and example payloads\<close>

text \<open>What the summary is compared with: distance and emissions summed over the public
  transport sections.\<close>

definition is_public_transport :: "json \<Rightarrow> bool" where
  "is_public_transport sec = (py_getitem sec ''type'' = Inr (JStr ''public_transport''))"

definition section_km :: "json \<Rightarrow> real" where
  "section_km sec = (case fst (calculate_walking_distance sec) of Inr d \<Rightarrow> d / 1000 | Inl _ \<Rightarrow> 0)"

definition section_factor :: "json \<Rightarrow> real" where
  "section_factor sec = (case section_mode sec of Inr m \<Rightarrow> emissions_get m | Inl _ \<Rightarrow> 0)"

definition transit_km :: "json list \<Rightarrow> real" where
  "transit_km secs = sum_list (map section_km (filter is_public_transport secs))"

definition transit_co2 :: "json list \<Rightarrow> real" where
  "transit_co2 secs =
     sum_list (map (\<lambda>s. section_km s * section_factor s) (filter is_public_transport secs))"

definition first_journey_sections :: "json \<Rightarrow> exn + json list" where
  "first_journey_sections journey_data =
     ebind (ebind (py_getitem journey_data ''journeys'') py_getitem0) (\<lambda>journey.
     ebind (py_getitem journey ''sections'') py_iter)"

definition stop_endpoint :: "string \<Rightarrow> json \<Rightarrow> json \<Rightarrow> json" where
  "stop_endpoint name lat lon =
     JObj [(''name'', JStr name), (''embedded_type'', JStr ''stop_point''),
           (''stop_point'', JObj [(''coord'', JObj [(''lat'', lat), (''lon'', lon)])])]"

definition bus_section_2km :: json where
  "bus_section_2km =
     JObj [(''type'', JStr ''public_transport''),
           (''display_informations'',
              JObj [(''physical_mode'', JStr ''Bus''), (''code'', JStr ''38'')]),
           (''from'', stop_endpoint ''A'' (JFloat 0) (JFloat 0)),
           (''to'', stop_endpoint ''B'' (JFloat 0) (JFloat (2000 / 6371000 * 180 / pi))),
           (''duration'', JInt 600)]"

definition section_without_mode :: json where
  "section_without_mode =
     JObj [(''type'', JStr ''public_transport''),
           (''display_informations'', JObj [(''code'', JStr ''38'')]),
           (''from'', stop_endpoint ''A'' (JStr ''48.85'') (JStr ''2.36'')),
           (''to'', stop_endpoint ''B'' (JStr ''48.86'') (JStr ''2.35'')),
           (''duration'', JInt 600)]"

definition single_journey :: "json \<Rightarrow> json" where
  "single_journey sec =
     JObj [(''journeys'', JList [JObj [(''duration'', JInt 600), (''sections'', JList [sec])]])]"

text \<open>Stations on the equator at a given distance (in metres) from the point (0, 0), a
  station whose payload has no \<open>stop_point\<close>, a search centred at (0, 0), and a journey
  service that always fails.\<close>

definition station :: "json \<Rightarrow> json \<Rightarrow> json" where
  "station lat lon = JObj [(''stop_point'', JObj [(''coord'', JObj [(''lat'', lat), (''lon'', lon)])])]"

definition equator_station :: "real \<Rightarrow> json" where
  "equator_station d = station (JFloat 0) (JFloat (d / 6371000 * 180 / pi))"


definition origin_env :: env where
  "origin_env = \<lparr>from_lat = 0, from_lon = 0, to_lat = 0, to_lon = 0\<rparr>"

definition failing_http :: http where
  "failing_http api_key a b c d = Inl RequestException"

section \<open>Reference notions for the search result\<close>

text \<open>
  What the search is compared with, said without the loops of the program. The walking
  sections of an itinerary are its sections of type \<open>street_network\<close> and mode
  \<open>walking\<close>; \<open>section_metres\<close> is the walking distance of one section as a float;
  \<open>walking_total\<close> is their sum and \<open>score_of\<close> its distance to the target.
\<close>

definition sections_of :: "json \<Rightarrow> json list" where
  "sections_of journey =
     (case ebind (py_getitem journey ''sections'') py_iter of Inr secs \<Rightarrow> secs | Inl _ \<Rightarrow> [])"

definition walking_section :: "json \<Rightarrow> bool" where
  "walking_section sec =
     (py_getitem sec ''type'' = Inr (JStr ''street_network'') \<and>
      py_getitem sec ''mode'' = Inr (JStr ''walking''))"

definition section_metres :: "json \<Rightarrow> b64" where
  "section_metres sec =
     (case fst (calculate_walking_distance sec) of Inr d \<Rightarrow> b64_round d | Inl _ \<Rightarrow> Fin 0)"

definition walking_total :: "float_sum \<Rightarrow> json \<Rightarrow> b64" where
  "walking_total py_sum journey =
     py_sum (map section_metres (filter walking_section (sections_of journey)))"


text \<open>
  An itinerary can be scored when its sections can be read: it has a list of sections, each
  section has a type, each section of the street network has a mode, and the walking distance
  of each walking section is computed without an exception.
\<close>

definition section_readable :: "json \<Rightarrow> bool" where
  "section_readable sec =
     (case py_getitem sec ''type'' of
        Inl _ \<Rightarrow> False
      | Inr ty \<Rightarrow>
          if ty = JStr ''street_network''
          then (case py_getitem sec ''mode'' of
                  Inl _ \<Rightarrow> False
                | Inr m \<Rightarrow> if m = JStr ''walking''
                           then (case fst (calculate_walking_distance sec) of
                                   Inl _ \<Rightarrow> False | Inr _ \<Rightarrow> True)
                           else True)
          else True)"

definition scoreable :: "json \<Rightarrow> bool" where
  "scoreable journey =
     (case ebind (py_getitem journey ''sections'') py_iter of
        Inl _ \<Rightarrow> False
      | Inr secs \<Rightarrow> list_all section_readable secs)"

text \<open>
  For a pair of stations, \<open>pair_itineraries\<close> are the itineraries of the response to its
  query (none when the query or the reading of the response raises), and
  \<open>scored_itineraries\<close> those that come before the first one that cannot be scored.
\<close>

definition pair_itineraries :: "http \<Rightarrow> string \<Rightarrow> env \<Rightarrow> json \<times> json \<Rightarrow> json list" where
  "pair_itineraries http api_key g p =
     (case fst (pair_response http api_key g (fst p) (snd p)) of
        Inl _ \<Rightarrow> []
      | Inr result \<Rightarrow>
          (case py_get result ''journeys'' of
             Inl _ \<Rightarrow> []
           | Inr js \<Rightarrow>
               if \<not> truthy js then []
               else (case ebind (py_getitem result ''journeys'') py_iter of
                       Inl _ \<Rightarrow> []
                     | Inr journeys \<Rightarrow> journeys)))"

definition scored_itineraries :: "http \<Rightarrow> string \<Rightarrow> env \<Rightarrow> json \<times> json \<Rightarrow> json list" where
  "scored_itineraries http api_key g p = takeWhile scoreable (pair_itineraries http api_key g p)"



text \<open>
  The stations the search goes through: of a sorted list, the last ten when the target is
  above 3000 steps and the first ten otherwise; \<open>queried_pairs\<close> are the pairs of
  selected stations in the order of the two loops. \<open>not_farther lat lon y x\<close>: station
  \<open>y\<close> is at most as far from the point as station \<open>x\<close>.
\<close>

definition selected_slice :: "int \<Rightarrow> json list \<Rightarrow> json list" where
  "selected_slice target_steps xs =
     (if 3000 < target_steps then drop (length xs - 10) xs else take 10 xs)"


definition not_farther :: "real \<Rightarrow> real \<Rightarrow> json \<Rightarrow> json \<Rightarrow> bool" where
  "not_farther lat lon y x =
     (case (station_key lat lon y, station_key lat lon x) of
        (Inr a, Inr b) \<Rightarrow> a \<le> b
      | _ \<Rightarrow> False)"






text \<open>
  Example itineraries: a single walk of \<open>d\<close> metres along the equator; a response with
  walks of 500, 1500 and 2600 metres; a service that always answers with it, and one that
  fails for the destination at longitude 0. An itinerary without sections; a response that
  holds it between a walk of 500 and a walk of 1500 metres, and one that holds it after a walk
  of 1400 metres, with the services that answer with them. A service that is interrupted.
\<close>

definition walk_section :: "real \<Rightarrow> json" where
  "walk_section d =
     JObj [(''type'', JStr ''street_network''), (''mode'', JStr ''walking''),
           (''from'', stop_endpoint ''A'' (JFloat 0) (JFloat 0)),
           (''to'', stop_endpoint ''B'' (JFloat 0) (JFloat (d / 6371000 * 180 / pi)))]"

definition walk_journey :: "real \<Rightarrow> json" where
  "walk_journey d = JObj [(''sections'', JList [walk_section d])]"

definition three_journeys :: json where
  "three_journeys =
     JObj [(''journeys'', JList [walk_journey 500, walk_journey 1500, walk_journey 2600])]"


definition flaky_http :: http where
  "flaky_http api_key a b c d = (if d = 0 then Inl RequestException else Inr three_journeys)"

definition journey_without_sections :: json where
  "journey_without_sections = JObj [(''duration'', JInt 600)]"



definition broken_at_the_end :: json where
  "broken_at_the_end =
     JObj [(''journeys'', JList [walk_journey 1400, journey_without_sections])]"

definition half_broken_http :: http where
  "half_broken_http api_key a b c d =
     (if d = 0 then Inr broken_at_the_end
      else Inr (JObj [(''journeys'', JList [walk_journey 500])]))"


text \<open>Eleven stations on the equator, one every kilometre from the point (0, 0).\<close>

definition eleven_stations :: "json list" where
  "eleven_stations =
     map equator_station [0, 1000, 2000, 3000, 4000, 5000, 6000, 7000, 8000, 9000, 10000]"

text \<open>The lines printed for a pair of stations, \<open>a\<close> and \<open>b\<close> metres from the two end
  points, whose query fails with \<open>RequestException\<close>.\<close>

definition failed_query_lines :: "real \<times> real \<Rightarrow> out_line list" where
  "failed_query_lines p =
     [PEvaluating (fst p / 1000) (snd p / 1000), PErrorFetching RequestException,
      PErrorProcessing RequestException]"

section \<open>The round trip between steps and distance\<close>

lemma rne_error: "\<bar>of_int (rne y) - y\<bar> \<le> 1 / 2"
proof -
  have "of_int \<lfloor>y\<rfloor> \<le> y" "y < of_int \<lfloor>y\<rfloor> + 1" by linarith+
  then show ?thesis by (auto simp: rne_def Let_def)
qed

lemma two_powr_expo_le:
  assumes "x \<noteq> 0"
  shows "2 powr of_int (expo x) \<le> \<bar>x\<bar>"
proof -
  have "of_int (expo x) \<le> log 2 \<bar>x\<bar>" by (simp add: expo_def)
  then have "2 powr of_int (expo x) \<le> 2 powr log 2 \<bar>x\<bar>"
    by (simp only: powr_le_cancel_iff) 
  then show ?thesis using assms by simp
qed

lemma expo_ge:
  assumes "2 powr of_int k \<le> \<bar>x\<bar>"
  shows "k \<le> expo x"
proof -
  have x: "0 < \<bar>x\<bar>" using assms by (smt (verit) powr_gt_zero)
  from assms x have "of_int k \<le> log 2 \<bar>x\<bar>" by (simp add: powr_le_iff)
  then show ?thesis by (simp add: expo_def le_floor_iff)
qed

lemma round_b64_error:
  assumes "2 powr (- 1022) \<le> \<bar>x\<bar>"
  shows "\<bar>round_b64 x - x\<bar> \<le> \<bar>x\<bar> * unit_roundoff"
proof -
  have x0: "x \<noteq> 0" using assms by (smt (verit) powr_gt_zero)
  have e: "- 1022 \<le> expo x" using expo_ge [of "- 1022" x] assms by simp
  then have u: "ulp x = 2 powr of_int (expo x - 52)" by (simp add: ulp_def max_def)
  have up: "0 < ulp x" by (simp add: ulp_def)
  have "\<bar>round_b64 x - x\<bar> = ulp x * \<bar>of_int (rne (x / ulp x)) - x / ulp x\<bar>"
  proof -
    have "round_b64 x - x = ulp x * (of_int (rne (x / ulp x)) - x / ulp x)"
      using x0 up by (simp add: round_b64_def algebra_simps)
    then show ?thesis using up by (simp add: abs_mult)
  qed
  also have "\<dots> \<le> ulp x * (1 / 2)"
    using rne_error [of "x / ulp x"] up by (intro mult_left_mono) auto
  also have "\<dots> = 2 powr of_int (expo x) * unit_roundoff"
  proof -
    have "(2::real) powr of_int (expo x - 52) = 2 powr of_int (expo x) * 2 powr (- 52)"
      by (simp flip: powr_add)
    moreover have "(2::real) powr (- 52) = 1 / 2 ^ 52"
      by (simp add: powr_minus_divide flip: powr_realpow)
    ultimately show ?thesis by (simp add: u unit_roundoff_def)
  qed
  also have "\<dots> \<le> \<bar>x\<bar> * unit_roundoff"
    using two_powr_expo_le [OF x0] by (intro mult_right_mono) (auto simp: unit_roundoff_def)
  finally show ?thesis .
qed

lemma round_b64_bounds:
  assumes "2 powr (- 1022) \<le> x"
  shows "x * (1 - unit_roundoff) \<le> round_b64 x" and "round_b64 x \<le> x * (1 + unit_roundoff)"
proof -
  have x: "0 < x" using assms by (smt (verit) powr_gt_zero)
  from round_b64_error [of x] assms x have "\<bar>round_b64 x - x\<bar> \<le> x * unit_roundoff" by simp
  then show "x * (1 - unit_roundoff) \<le> round_b64 x" "round_b64 x \<le> x * (1 + unit_roundoff)"
    by (simp_all add: algebra_simps abs_le_iff)
qed

lemma b64_round_Fin:
  assumes "- (2 ^ 1024) < round_b64 x" "round_b64 x < 2 ^ 1024"
  shows "b64_round x = Fin (round_b64 x)"
  using assms by (simp add: b64_round_def Let_def)

lemma steps_round_trip_zero: "s \<noteq> 0 \<Longrightarrow> steps_round_trip 0 s = Inr 0"
  by (simp add: steps_round_trip_def calculate_distance_from_steps_b64_def
                calculate_steps_b64_def b64_of_int_def b64_round_def round_b64_def ebind_def
                py_int_def)

lemma powr_bounds:
  "(2::real) powr (- 1022) \<le> 2 powr (- 1000)" "(2::real) powr (- 1000) \<le> 1 / 4"
  "(2::real) powr (- 1022) \<le> 1 / 16"
  "(2::real) powr 900 * 2 ^ 52 < 2 ^ 1024"
proof -
  show "(2::real) powr (- 1022) \<le> 2 powr (- 1000)" by simp
  have a: "(2::real) powr (- 2) = 1 / 4" by (simp add: powr_minus_divide)
  have "(2::real) powr (- 1000) \<le> 2 powr (- 2)" by simp
  then show "(2::real) powr (- 1000) \<le> 1 / 4" using a by simp
  have b: "(2::real) powr (- 4) = 1 / 16" by (simp add: powr_minus_divide)
  have "(2::real) powr (- 1022) \<le> 2 powr (- 4)" by simp
  then show "(2::real) powr (- 1022) \<le> 1 / 16" using b by simp
  have "(2::real) powr 900 * 2 ^ 52 = 2 powr 900 * 2 powr 52" by simp
  also have "\<dots> = 2 powr 952" by (simp flip: powr_add)
  also have "\<dots> < 2 powr 1024" by simp
  also have "\<dots> = 2 ^ 1024" by simp
  finally show "(2::real) powr 900 * 2 ^ 52 < 2 ^ 1024" .
qed

lemma above_neg_bound: "0 \<le> x \<Longrightarrow> - (2 ^ 1024) < (x::real)"
proof -
  assume "0 \<le> x"
  moreover have "(0::real) < 2 ^ 1024" by simp
  ultimately show ?thesis by linarith
qed

lemma exact_round_trip:
  assumes "0 \<le> n" "0 < s"
  shows "calculate_steps (calculate_distance_from_steps n s) s = Inr n"
  using assms by (simp add: calculate_steps_def calculate_distance_from_steps_def py_int_def)

lemma roundoff_cubes:
  "(1 + unit_roundoff) ^ 3 \<le> 1 + 4 * unit_roundoff"
  "1 - 4 * unit_roundoff \<le> (1 - unit_roundoff) ^ 3"
  by (simp_all add: unit_roundoff_def power3_eq_cube field_simps)

lemma steps_round_trip_pos:
  assumes n1: "1 \<le> n" and n50: "n < 2 ^ 50"
    and s_lo: "2 powr (- 1000) \<le> s" and s_hi: "s \<le> 2 powr 900"
  shows "\<exists>m. steps_round_trip n s = Inr m \<and> (m = n \<or> m = n - 1)"
proof -
  define u where "u = unit_roundoff"
  have u: "0 < u" "u \<le> 1 / 2" by (simp_all add: u_def unit_roundoff_def)
  have up: "0 \<le> 1 + u" "0 \<le> 1 - u" "1 + u \<le> 2" "1 / 2 \<le> 1 - u" using u by simp_all
  define N where "N = real_of_int n"
  have N: "1 \<le> N" "N < 2 ^ 50" using n1 n50 by (simp_all add: N_def)
  have s0: "0 < s" using s_lo by (smt (verit) powr_gt_zero)
  define x0 where "x0 = round_b64 N"
  have "2 powr (- 1022) \<le> N" using powr_bounds(3) N by linarith
  from round_b64_bounds [OF this]
  have x0: "N * (1 - u) \<le> x0" "x0 \<le> N * (1 + u)" by (simp_all add: x0_def u_def)
  have "1 * (1 / 2) \<le> N * (1 - u)" using N up by (intro mult_mono) auto
  with x0 have x0_lo: "1 / 2 \<le> x0" by simp
  have "N * (1 + u) \<le> 2 ^ 50 * 2" using N up by (intro mult_mono) auto
  with x0 have x0_hi: "x0 \<le> 2 ^ 51" by simp
  have r0: "b64_of_int n = Inr (Fin x0)"
  proof -
    have "- (2 ^ 1024) < x0" using x0_lo by (intro above_neg_bound) simp
    moreover have "x0 < 2 ^ 1024"
    proof -
      have "(2::real) ^ 51 < 2 ^ 1024" by simp
      with x0_hi show ?thesis by linarith
    qed
    ultimately have "b64_round N = Fin x0" unfolding x0_def by (simp add: b64_round_Fin)
    then show ?thesis by (simp add: b64_of_int_def N_def)
  qed
  define p where "p = x0 * s"
  have p_lo: "1 / 2 * s \<le> p" unfolding p_def using x0_lo s0 by (intro mult_right_mono) auto
  have p_hi: "p \<le> 2 ^ 51 * 2 powr 900"
    unfolding p_def using x0_hi s_hi s0 x0_lo by (intro mult_mono) auto
  have p0: "0 < p" using p_lo s0 by linarith
  have "(2::real) powr (- 1022) \<le> 2 powr (- 1001)" by simp
  also have "\<dots> = 1 / 2 * 2 powr (- 1000)"
  proof -
    have "(2::real) powr (- 1001 + 1) = 2 powr (- 1001) * 2 powr 1" by (rule powr_add)
    then have "(2::real) powr (- 1000) = 2 powr (- 1001) * 2" by simp
    then show ?thesis by simp
  qed
  also have "\<dots> \<le> 1 / 2 * s" using s_lo by simp
  finally have "2 powr (- 1022) \<le> p" using p_lo by linarith
  define t where "t = round_b64 p"
  from round_b64_bounds [OF \<open>2 powr (- 1022) \<le> p\<close>]
  have t: "p * (1 - u) \<le> t" "t \<le> p * (1 + u)" by (simp_all add: t_def u_def)
  have t0: "0 < t"
  proof -
    have "0 < p * (1 - u)" using p0 up by (intro mult_pos_pos) auto
    with t show ?thesis by linarith
  qed
  have r1: "b64_mul (Fin x0) (Fin s) = Fin t"
  proof -
    have "p * (1 + u) \<le> (2 ^ 51 * 2 powr 900) * 2"
      using p_hi up p0 by (intro mult_mono) auto
    also have "\<dots> = 2 powr 900 * 2 ^ 52" by simp
    also have "\<dots> < 2 ^ 1024" by (rule powr_bounds(4))
    finally have "t < 2 ^ 1024" using t by linarith
    moreover have "- (2 ^ 1024) < t" using t0 by (intro above_neg_bound) simp
    ultimately have "b64_round p = Fin t" unfolding t_def by (simp add: b64_round_Fin)
    then show ?thesis by (simp add: p_def)
  qed
  define d where "d = t / s"
  have d: "x0 * (1 - u) \<le> d" "d \<le> x0 * (1 + u)"
    using t s0 by (simp_all add: d_def p_def field_simps)
  have "1 / 2 * (1 / 2) \<le> x0 * (1 - u)" using x0_lo up by (intro mult_mono) auto
  with d have d_lo: "1 / 4 \<le> d" by simp
  have "2 powr (- 1022) \<le> d" using powr_bounds(3) d_lo by linarith
  define q where "q = round_b64 d"
  from round_b64_bounds [OF \<open>2 powr (- 1022) \<le> d\<close>]
  have q: "d * (1 - u) \<le> q" "q \<le> d * (1 + u)" by (simp_all add: q_def u_def)
  have q_hi: "q \<le> N * (1 + u) ^ 3"
  proof -
    have "q \<le> x0 * (1 + u) * (1 + u)" using q d up by (meson mult_right_mono order_trans)
    also have "\<dots> \<le> N * (1 + u) * (1 + u) * (1 + u)"
      using x0 up by (intro mult_right_mono) auto
    finally show ?thesis by (simp add: power3_eq_cube mult.assoc)
  qed
  have q_lo: "N * (1 - u) ^ 3 \<le> q"
  proof -
    have "N * (1 - u) * (1 - u) * (1 - u) \<le> x0 * (1 - u) * (1 - u)"
      using x0 up by (intro mult_right_mono) auto
    also have "\<dots> \<le> q" using q d up by (meson mult_right_mono order_trans)
    finally show ?thesis by (simp add: power3_eq_cube mult.assoc)
  qed
  have Nu: "N * (4 * u) \<le> 1 / 2"
  proof -
    have "N * (4 * u) \<le> 2 ^ 50 * (4 * u)" using N u by (intro mult_right_mono) auto
    also have "\<dots> = 1 / 2" by (simp add: u_def unit_roundoff_def)
    finally show ?thesis .
  qed
  have "N * (1 + u) ^ 3 \<le> N * (1 + 4 * u)"
    using roundoff_cubes(1) N unfolding u_def by (intro mult_left_mono) auto
  with q_hi Nu have qh: "q < N + 1" by (simp add: algebra_simps)
  have "N * (1 - 4 * u) \<le> N * (1 - u) ^ 3"
    using roundoff_cubes(2) N unfolding u_def by (intro mult_left_mono) auto
  with q_lo Nu have ql: "N - 1 < q" by (simp add: algebra_simps)
  have r2: "b64_div (Fin t) (Fin s) = Inr (Fin q)"
  proof -
    have "q < 2 ^ 1024"
    proof -
      have "N + 1 < (2::real) ^ 51" using N by simp
      moreover have "(2::real) ^ 51 < 2 ^ 1024" by simp
      ultimately show ?thesis using qh by linarith
    qed
    moreover have "- (2 ^ 1024) < q" using ql N by (intro above_neg_bound) simp
    ultimately have "b64_round d = Fin q" unfolding q_def by (simp add: b64_round_Fin)
    then show ?thesis using s0 by (simp add: d_def)
  qed
  have q0: "0 \<le> q" using ql N by linarith
  have trip: "steps_round_trip n s = Inr \<lfloor>q\<rfloor>"
    using q0 by (simp add: steps_round_trip_def calculate_distance_from_steps_b64_def
                  calculate_steps_b64_def r0 r1 r2 ebind_def py_int_def
             del: b64_mul.simps b64_div.simps)
  have "n - 1 \<le> \<lfloor>q\<rfloor>" using ql by (simp add: le_floor_iff N_def)
  moreover have "\<lfloor>q\<rfloor> < n + 1"
  proof -
    have "q < of_int (n + 1)" using qh by (simp add: N_def)
    then show ?thesis by (simp only: floor_less_iff)
  qed
  ultimately have "\<lfloor>q\<rfloor> = n \<or> \<lfloor>q\<rfloor> = n - 1" by linarith
  with trip show ?thesis by simp
qed

lemma round_b64_at_exponent:
  assumes "2 powr of_int k \<le> \<bar>x\<bar>" and "\<bar>x\<bar> < 2 powr of_int (k + 1)" and "- 1022 \<le> k"
  shows "round_b64 x = 2 powr of_int (k - 52) * of_int (rne (x / 2 powr of_int (k - 52)))"
proof -
  have x: "0 < \<bar>x\<bar>" using assms(1) by (smt (verit) powr_gt_zero)
  have "\<lfloor>log 2 \<bar>x\<bar>\<rfloor> = k"
    using assms(1,2) x by (subst floor_log_eq_powr_iff) auto
  then have "ulp x = 2 powr of_int (k - 52)" using assms(3) by (simp add: ulp_def expo_def max_def)
  then show ?thesis using x by (simp add: round_b64_def)
qed

lemma powr_neg50: "(2::real) powr (- 50) = 1 / 2 ^ 50"
  by (simp add: powr_minus_divide)

lemma powr_neg53: "(2::real) powr (- 53) = 1 / 2 ^ 53"
  by (simp add: powr_minus_divide)

lemma round_7: "round_b64 7 = 7"
  using round_b64_at_exponent [of 2 7]
  by (simp add: powr_neg50 rne_def)

lemma round_stride_150: "round_b64 stride_150 = stride_150"
  using round_b64_at_exponent [of "-1" stride_150]
  by (simp add: stride_150_def powr_neg53 powr_minus_divide rne_def)

lemma round_7_stride: "round_b64 (7 * stride_150) = 4894286895044886 / 2 ^ 50"
  using round_b64_at_exponent [of 2 "7 * stride_150"]
  by (simp add: stride_150_def powr_neg50 rne_def)

lemma round_quotient:
  "round_b64 (4894286895044886 / 2 ^ 50 / stride_150) = 7881299347898367 / 2 ^ 50"
  using round_b64_at_exponent [of 2 "4894286895044886 / 2 ^ 50 / stride_150"]
  by (simp add: stride_150_def powr_neg50 rne_def)

lemma powr_neg52: "(2::real) powr (- 52) = 1 / 2 ^ 52"
  by (simp add: powr_minus_divide)

lemma powr_neg54: "(2::real) powr (- 54) = 1 / 2 ^ 54"
  by (simp add: powr_minus_divide)

lemma round_literal_0414: "round_b64 0.414 = 7457960982925541 / 2 ^ 54"
  using round_b64_at_exponent [of "-2" "0.414"]
  by (simp add: powr_neg54 powr_minus_divide rne_def)

lemma round_150_over_100: "round_b64 (150 / 100) = 3 / 2"
  using round_b64_at_exponent [of 0 "150 / 100"]
  by (simp add: powr_neg52 rne_def)

lemma round_stride_product: "round_b64 (3 / 2 * (7457960982925541 / 2 ^ 54)) = stride_150"
  using round_b64_at_exponent [of "-1" "3 / 2 * (7457960982925541 / 2 ^ 54)"]
  by (simp add: stride_150_def powr_neg53 powr_minus_divide rne_def)

lemma step_length_150: "calculate_step_length_b64 (Fin 150) = Inr (Fin stride_150)"
proof -
  have a: "b64_round (150 / 100) = Fin (3 / 2)"
    unfolding b64_round_def Let_def round_150_over_100 by simp
  have b: "b64_round 0.414 = Fin (7457960982925541 / 2 ^ 54)"
    unfolding b64_round_def Let_def round_literal_0414 by simp
  have c: "b64_round (3 / 2 * (7457960982925541 / 2 ^ 54)) = Fin stride_150"
    unfolding b64_round_def Let_def round_stride_product by (simp add: stride_150_def)
  have d: "b64_div (Fin 150) (Fin 100) = Inr (Fin (3 / 2))"
    by (simp only: b64_div.simps a) simp
  show ?thesis
    by (simp only: calculate_step_length_b64_def d ebind_def sum.case b b64_mul.simps c)
qed

text \<open>
  C3 as stated (the round trip gives \<open>n\<close> for every \<open>n\<close> and every stride) does not
  hold in float arithmetic: for a height of 150 cm the stride is the float
  \<open>5593470737194156 / 2 ^ 53\<close> (0.621), and 7 steps convert to a distance that converts
  back to 6 steps.
\<close>

theorem steps_round_trip_counterexample:
  "calculate_step_length_b64 (Fin 150) = Inr (Fin stride_150) \<and> 0 < stride_150 \<and>
   steps_round_trip 7 stride_150 = Inr 6"
proof -
  have a: "b64_round 7 = Fin 7" unfolding b64_round_def Let_def round_7 by simp
  have b: "b64_round (7 * stride_150) = Fin (4894286895044886 / 2 ^ 50)"
    unfolding b64_round_def Let_def round_7_stride by simp
  have c: "b64_round (4894286895044886 / 2 ^ 50 / stride_150) = Fin (7881299347898367 / 2 ^ 50)"
    unfolding b64_round_def Let_def round_quotient by simp
  have s: "stride_150 \<noteq> 0" "0 < stride_150" by (simp_all add: stride_150_def)
  have oi: "b64_of_int 7 = Inr (Fin 7)" by (simp add: b64_of_int_def a)
  have m: "b64_mul (Fin 7) (Fin stride_150) = Fin (4894286895044886 / 2 ^ 50)"
    by (simp only: b64_mul.simps b)
  have dv: "b64_div (Fin (4894286895044886 / 2 ^ 50)) (Fin stride_150)
              = Inr (Fin (7881299347898367 / 2 ^ 50))"
    using s(1) by (simp only: b64_div.simps c if_False)
  have "steps_round_trip 7 stride_150 = Inr (py_int (7881299347898367 / 2 ^ 50))"
    by (simp only: steps_round_trip_def calculate_distance_from_steps_b64_def
                   calculate_steps_b64_def oi m dv ebind_def sum.case b64_int.simps)
  moreover have "py_int (7881299347898367 / 2 ^ 50) = 6" by (simp add: py_int_def)
  ultimately show ?thesis using step_length_150 s by simp
qed

text \<open>
  C3, amended: for \<open>0 \<le> n < 2 ^ 50\<close> and a stride between \<open>2 ^ -1000\<close> and
  \<open>2 ^ 900\<close>, the round trip in float arithmetic raises nothing and yields \<open>n\<close> or
  \<open>n - 1\<close>; in exact arithmetic it yields \<open>n\<close>.
\<close>

theorem steps_round_trip_bounds:
  assumes "0 \<le> n" and "n < 2 ^ 50" and "2 powr (- 1000) \<le> s" and "s \<le> 2 powr 900"
  shows "(\<exists>m. steps_round_trip n s = Inr m \<and> (m = n \<or> m = n - 1)) \<and>
         calculate_steps (calculate_distance_from_steps n s) s = Inr n"
proof -
  have s0: "0 < s" using assms(3) by (smt (verit) powr_gt_zero)
  have "\<exists>m. steps_round_trip n s = Inr m \<and> (m = n \<or> m = n - 1)"
  proof (cases "n = 0")
    case True
    with steps_round_trip_zero [of s] s0 show ?thesis by simp
  next
    case False
    with assms(1) have "1 \<le> n" by simp
    from steps_round_trip_pos [OF this assms(2-4)] show ?thesis .
  qed
  with exact_round_trip [OF assms(1) s0] show ?thesis by simp
qed

theorem steps_round_trip_bounds_witness:
  "(\<exists>m. steps_round_trip 7 stride_150 = Inr m \<and> (m = 7 \<or> m = 7 - 1)) \<and>
   calculate_steps (calculate_distance_from_steps 7 stride_150) stride_150 = Inr 7"
proof -
  have a: "(0::int) \<le> 7" and b: "(7::int) < 2 ^ 50" by simp_all
  have "(1::real) / 4 \<le> stride_150" by (simp add: stride_150_def)
  with powr_bounds(2) have c: "2 powr (- 1000) \<le> stride_150" by linarith
  have "stride_150 \<le> 2 powr 0" by (simp add: stride_150_def)
  also have "\<dots> \<le> 2 powr 900" by (simp only: powr_le_cancel_iff)
  finally have d: "stride_150 \<le> 2 powr 900" .
  from steps_round_trip_bounds [OF a b c d] show ?thesis .
qed

subsection \<open>Integers and numbers of moderate magnitude\<close>

lemma rne_of_int: "rne (of_int m) = m"
  by (simp add: rne_def Let_def)

lemma round_b64_magnitude:
  assumes "\<bar>x\<bar> \<le> 2 ^ 1000"
  shows "\<bar>round_b64 x\<bar> < 2 ^ 1024"
proof (cases "2 powr (- 1022) \<le> \<bar>x\<bar>")
  case True
  from round_b64_error [OF True] have "\<bar>round_b64 x - x\<bar> \<le> \<bar>x\<bar> * unit_roundoff" .
  moreover have "\<bar>x\<bar> * unit_roundoff \<le> \<bar>x\<bar> * 1"
    by (intro mult_left_mono) (simp_all add: unit_roundoff_def)
  ultimately have "\<bar>round_b64 x\<bar> \<le> 2 * \<bar>x\<bar>" by linarith
  also have "\<dots> \<le> 2 * 2 ^ 1000" using assms by simp
  also have "\<dots> < (2::real) ^ 1024" by simp
  finally show ?thesis .
next
  case False
  show ?thesis
  proof (cases "x = 0")
    case True
    then show ?thesis by (simp add: round_b64_def)
  next
    case x0: False
    have one: "(2::real) powr (- 1022) \<le> 1" "(2::real) powr (- 1074) \<le> 1"
      by (simp_all add: powr_minus_divide)
    have "\<not> (- 1022 \<le> expo x)"
    proof
      assume "- 1022 \<le> expo x"
      then have "(- 1022::real) \<le> of_int (expo x)" by linarith
      then have "(2::real) powr (- 1022) \<le> 2 powr of_int (expo x)"
        by (intro powr_mono) simp_all
      with two_powr_expo_le [OF x0] False show False by linarith
    qed
    then have u: "ulp x = 2 powr (- 1074)" by (simp add: ulp_def max_def)
    have up: "0 < ulp x" by (simp add: ulp_def)
    have "round_b64 x - x = ulp x * (of_int (rne (x / ulp x)) - x / ulp x)"
      using x0 up by (simp add: round_b64_def algebra_simps)
    then have "\<bar>round_b64 x - x\<bar> = ulp x * \<bar>of_int (rne (x / ulp x)) - x / ulp x\<bar>"
      using up by (simp add: abs_mult)
    also have "\<dots> \<le> ulp x * (1 / 2)"
      using up rne_error [of "x / ulp x"] by (intro mult_left_mono) auto
    finally have "\<bar>round_b64 x - x\<bar> \<le> 1" using u one by simp
    moreover have "\<bar>x\<bar> \<le> 1" using False one by simp
    ultimately have "\<bar>round_b64 x\<bar> \<le> 2" by linarith
    also have "\<dots> < (2::real) ^ 1024" by simp
    finally show ?thesis .
  qed
qed

lemma b64_round_finite:
  assumes "\<bar>x\<bar> \<le> 2 ^ 1000"
  shows "b64_round x = Fin (round_b64 x)"
  using round_b64_magnitude [OF assms] by (simp add: b64_round_def Let_def abs_less_iff)

lemma round_b64_int:
  assumes "\<bar>i\<bar> < 2 ^ 53"
  shows "round_b64 (of_int i) = of_int i"
proof (cases "i = 0")
  case True
  then show ?thesis by (simp add: round_b64_def)
next
  case False
  define x :: real where "x = of_int i"
  define k where "k = expo x"
  have x0: "x \<noteq> 0" using False by (simp add: x_def)
  have "1 \<le> \<bar>i\<bar>" using False by simp
  then have "1 \<le> \<bar>x\<bar>" unfolding x_def by (metis of_int_abs of_int_1_le_iff)
  then have k0: "0 \<le> k" using expo_ge [of 0 x] by (simp add: k_def)
  have "\<bar>x\<bar> < 2 ^ 53" using assms unfolding x_def
    by (metis of_int_abs of_int_less_numeral_power_cancel_iff)
  then have "\<bar>x\<bar> < 2 powr 53" by simp
  with two_powr_expo_le [OF x0] have "(2::real) powr of_int k < 2 powr 53" by (simp add: k_def)
  then have "of_int k < (53::real)" by (simp only: powr_less_cancel_iff) 
  then have k52: "k \<le> 52" by simp
  define n where "n = nat (52 - k)"
  have u: "ulp x = 2 powr of_int (k - 52)" using k0 by (simp add: ulp_def max_def k_def)
  have p: "(2::real) powr of_int (52 - k) = 2 ^ n"
    using k52 by (simp add: n_def powr_realpow [symmetric])
  have inv: "(2::real) powr of_int (k - 52) * 2 ^ n = 1"
    unfolding p [symmetric] by (simp add: powr_add [symmetric])
  have "x / ulp x = x * 2 ^ n"
    using inv by (simp add: u field_simps)
  also have "\<dots> = of_int (i * 2 ^ n)" by (simp add: x_def)
  finally have "rne (x / ulp x) = i * 2 ^ n" by (simp only: rne_of_int)
  then have "round_b64 x = 2 powr of_int (k - 52) * (x * 2 ^ n)"
    using x0 unfolding round_b64_def u by (simp add: x_def)
  also have "\<dots> = x" using inv by (simp add: algebra_simps)
  finally show ?thesis by (simp add: x_def)
qed

lemma b64_round_int:
  assumes "\<bar>i\<bar> < 2 ^ 53"
  shows "b64_round (of_int i) = Fin (of_int i)"
proof -
  have "\<bar>(of_int i :: real)\<bar> < 2 ^ 53" using assms
    by (metis of_int_abs of_int_less_numeral_power_cancel_iff)
  then have "\<bar>(of_int i :: real)\<bar> \<le> 2 ^ 1000" by simp
  from b64_round_finite [OF this] round_b64_int [OF assms] show ?thesis by simp
qed
section \<open>Properties of the stride model\<close>

text \<open>
  C6 as stated (non-positive height is rejected with a validation error) does not hold:
  at height \<open>-170\<close> the function returns the stride \<open>-0.7038\<close>.
\<close>

theorem calculate_step_length_nonpositive_counterexample:
  "(-170::real) \<le> 0 \<and> calculate_step_length (-170) = Inr (-0.7038)"
  by (simp add: calculate_step_length_def)

text \<open>
  C6, amended: \<open>calculate_step_length\<close> validates nothing; for a non-positive height it
  returns the non-positive value \<open>height_cm / 100 * 0.414\<close>.
\<close>

theorem calculate_step_length_nonpositive:
  "height_cm \<le> 0 \<Longrightarrow>
     calculate_step_length height_cm = Inr (height_cm / 100 * 0.414) \<and>
     height_cm / 100 * 0.414 \<le> 0"
  by (simp add: calculate_step_length_def)

theorem calculate_step_length_nonpositive_witness:
  "(-170::real) \<le> 0 \<and> calculate_step_length (-170) = Inr (-170 / 100 * 0.414) \<and>
   (-170::real) / 100 * 0.414 \<le> 0"
proof -
  have h: "(-170::real) \<le> 0" by simp
  show ?thesis using h calculate_step_length_nonpositive [OF h] by simp
qed

section \<open>Properties of the walking distance of a section\<close>

lemma endpoint_coord_lacks:
  assumes "lacks_coord_variants ep"
  shows "endpoint_coord ep = Inl (KeyError (variant_key ep))"
  using assms
  by (auto simp: lacks_coord_variants_def endpoint_coord_def ebind_def py_get_def variant_key_def
           split: json.splits option.splits)

lemma lacks_coord_variants_truthy: "lacks_coord_variants ep \<Longrightarrow> truthy ep"
  by (auto simp: lacks_coord_variants_def split: json.splits)

lemma walking_distance_absent:
  assumes "falsy_field kvs ''from'' \<or> falsy_field kvs ''to''"
  shows "calculate_walking_distance (JObj kvs) = (Inr 0, [])"
  using assms
  by (auto simp: calculate_walking_distance_def falsy_field_def py_get_def
           split: option.splits sum.splits)

lemma walking_distance_from_lacks:
  assumes "map_of kvs ''from'' = Some f" and "lacks_coord_variants f"
    and "map_of kvs ''to'' = Some t" and "truthy t"
  shows "calculate_walking_distance (JObj kvs) =
           (Inr 0, [PKeyError (variant_key f), PStructureNotFound])"
proof -
  have tf: "truthy f" using assms(2) by (rule lacks_coord_variants_truthy)
  have b: "walking_distance_body (JObj kvs) = Inl (KeyError (variant_key f))"
    using assms(1) endpoint_coord_lacks [OF assms(2)]
    by (simp add: walking_distance_body_def ebind_def)
  show ?thesis
    using assms(1,3,4) tf b by (simp add: calculate_walking_distance_def py_get_def)
qed

lemma walking_distance_to_lacks:
  assumes "map_of kvs ''from'' = Some f" and "truthy f" and "endpoint_coord f = Inr c"
    and "map_of kvs ''to'' = Some t" and "lacks_coord_variants t"
  shows "calculate_walking_distance (JObj kvs) =
           (Inr 0, [PKeyError (variant_key t), PStructureNotFound])"
proof -
  have tt: "truthy t" using assms(5) by (rule lacks_coord_variants_truthy)
  have b: "walking_distance_body (JObj kvs) = Inl (KeyError (variant_key t))"
    using assms(1,3,4) endpoint_coord_lacks [OF assms(5)]
    by (simp add: walking_distance_body_def ebind_def)
  show ?thesis
    using assms(1,2,4) tt b by (simp add: calculate_walking_distance_def py_get_def)
qed

text \<open>Only \<open>KeyError\<close> is caught: an endpoint that is not a dict ends the call with the
  \<open>AttributeError\<close> of its \<open>.get\<close>.\<close>

lemma walking_distance_non_dict_endpoint:
  "calculate_walking_distance
     (JObj [(''from'', JStr ''Bastille''), (''to'', JObj [(''name'', JStr ''Nation'')])])
   = (Inl AttributeError, [])"
  by (simp add: calculate_walking_distance_def walking_distance_body_def endpoint_coord_def
                ebind_def py_get_def)

text \<open>
  C8 as stated (distance 0 \<^emph>\<open>with a logged diagnostic\<close> whenever an endpoint is absent) does
  not hold: a walking section without a \<open>from\<close> entry yields 0 and prints nothing.
\<close>

theorem walking_distance_absent_counterexample:
  "endpoint_missing [(''type'', JStr ''street_network''), (''mode'', JStr ''walking''),
                     (''to'', JObj [(''name'', JStr ''Bastille'')])] \<and>
   calculate_walking_distance
     (JObj [(''type'', JStr ''street_network''), (''mode'', JStr ''walking''),
            (''to'', JObj [(''name'', JStr ''Bastille'')])]) = (Inr 0, [])"
  by (simp add: endpoint_missing_def falsy_field_def calculate_walking_distance_def py_get_def)

text \<open>
  C8, amended: for a section (a dict) with an absent or empty endpoint, or whose first
  endpoint that fails to resolve lacks both the \<open>address\<close> and the \<open>stop_point\<close> entry,
  \<open>calculate_walking_distance\<close> returns 0 and raises nothing; the diagnostic is printed exactly
  when both endpoints are present (the \<open>KeyError\<close> path), and nothing is printed when an
  endpoint is absent.
\<close>

theorem walking_distance_missing_endpoint:
  assumes "endpoint_missing kvs"
  shows "\<exists>k. (k = ''address'' \<or> k = ''stop_point'') \<and>
           calculate_walking_distance (JObj kvs) =
             (Inr 0, if falsy_field kvs ''from'' \<or> falsy_field kvs ''to'' then []
                     else [PKeyError k, PStructureNotFound])"
proof (cases "falsy_field kvs ''from'' \<or> falsy_field kvs ''to''")
  case True
  then show ?thesis using walking_distance_absent [OF True] by auto
next
  case False
  then obtain f t where f: "map_of kvs ''from'' = Some f" "truthy f"
    and t: "map_of kvs ''to'' = Some t" "truthy t"
    by (auto simp: falsy_field_def split: option.splits)
  from assms False f t
  have c: "lacks_coord_variants f \<or> (\<not> isl (endpoint_coord f) \<and> lacks_coord_variants t)"
    by (simp add: endpoint_missing_def)
  have vk: "\<And>ep. variant_key ep = ''address'' \<or> variant_key ep = ''stop_point''"
    by (simp add: variant_key_def)
  show ?thesis
  proof (cases "lacks_coord_variants f")
    case True
    from walking_distance_from_lacks [OF f(1) True t] False vk [of f]
    show ?thesis by auto
  next
    case nl: False
    with c have r: "\<not> isl (endpoint_coord f)" and lt: "lacks_coord_variants t" by auto
    from r obtain co where co: "endpoint_coord f = Inr co"
      by (cases "endpoint_coord f") auto
    from walking_distance_to_lacks [OF f co t(1) lt] False vk [of t]
    show ?thesis by auto
  qed
qed

theorem walking_distance_missing_endpoint_witness:
  "endpoint_missing
     [(''from'', JObj [(''embedded_type'', JStr ''stop_point''),
                       (''stop_point'', JObj [(''coord'', JObj [(''lat'', JStr ''48.85''),
                                                                (''lon'', JStr ''2.36'')])])]),
      (''to'', JObj [(''embedded_type'', JStr ''address''), (''name'', JStr ''Bastille'')])] \<and>
   (\<exists>k. (k = ''address'' \<or> k = ''stop_point'') \<and>
      calculate_walking_distance
        (JObj [(''from'', JObj [(''embedded_type'', JStr ''stop_point''),
                          (''stop_point'', JObj [(''coord'', JObj [(''lat'', JStr ''48.85''),
                                                                   (''lon'', JStr ''2.36'')])])]),
         (''to'', JObj [(''embedded_type'', JStr ''address''), (''name'', JStr ''Bastille'')])])
        = (Inr 0, [PKeyError k, PStructureNotFound]))"
proof -
  let ?kvs = "[(''from'', JObj [(''embedded_type'', JStr ''stop_point''),
                       (''stop_point'', JObj [(''coord'', JObj [(''lat'', JStr ''48.85''),
                                                                (''lon'', JStr ''2.36'')])])]),
      (''to'', JObj [(''embedded_type'', JStr ''address''), (''name'', JStr ''Bastille'')])]"
  have h: "endpoint_missing ?kvs"
    by (simp add: endpoint_missing_def falsy_field_def lacks_coord_variants_def
                  endpoint_coord_def ebind_def py_get_def)
  have nf: "\<not> (falsy_field ?kvs ''from'' \<or> falsy_field ?kvs ''to'')"
    by (simp add: falsy_field_def)
  from walking_distance_missing_endpoint [OF h] nf h
  show ?thesis by simp
qed

section \<open>Geodesy: where the haversine formula is defined\<close>

lemma haversine_a_bounds:
  fixes p q D :: real
  assumes "\<bar>p\<bar> \<le> pi / 2" "\<bar>q\<bar> \<le> pi / 2"
  shows "0 \<le> (sin ((q - p) / 2))\<^sup>2 + cos p * cos q * (sin D)\<^sup>2"
    and "(sin ((q - p) / 2))\<^sup>2 + cos p * cos q * (sin D)\<^sup>2 \<le> 1"
proof -
  have cp: "0 \<le> cos p" using assms(1) by (intro cos_ge_zero) auto
  have cq: "0 \<le> cos q" using assms(2) by (intro cos_ge_zero) auto
  have pq: "0 \<le> cos p * cos q" using cp cq by simp
  show "0 \<le> (sin ((q - p) / 2))\<^sup>2 + cos p * cos q * (sin D)\<^sup>2"
    using pq by (simp add: zero_le_mult_iff)
  define A where "A = cos p * cos q"
  define B where "B = sin p * sin q"
  define T where "T = cos p * cos q * (sin D)\<^sup>2"
  define S where "S = (sin ((q - p) / 2))\<^sup>2"
  have s1: "(sin D)\<^sup>2 \<le> 1" by (simp add: abs_square_le_1)
  have "cos p * cos q * (sin D)\<^sup>2 \<le> cos p * cos q * 1"
    using pq s1 by (intro mult_left_mono) auto
  then have t: "T \<le> A" by (simp add: T_def A_def)
  have "2 * ((q - p) / 2) = q - p" by simp
  with cos_double_sin [of "(q - p) / 2"] have "cos (q - p) = 1 - 2 * S"
    unfolding S_def by metis
  moreover have "cos (q - p) = A + B" by (simp add: cos_diff A_def B_def mult.commute)
  ultimately have s: "2 * S = 1 - (A + B)" by simp
  have "cos (p + q) = A - B" by (simp add: cos_add A_def B_def)
  moreover have "cos (p + q) \<le> 1" by (rule cos_le_one)
  ultimately have c: "A - B \<le> 1" by simp
  have "S + T \<le> 1" using t s c by linarith
  then show "(sin ((q - p) / 2))\<^sup>2 + cos p * cos q * (sin D)\<^sup>2 \<le> 1"
    by (simp add: S_def T_def)
qed

lemma haversine_defined:
  assumes "\<bar>lat1\<bar> \<le> 90" "\<bar>lat2\<bar> \<le> 90"
  shows "\<exists>d. haversine_distance lat1 lon1 lat2 lon2 = Inr d"
proof -
  have p: "\<bar>radians lat1\<bar> \<le> pi / 2" using assms(1) by (simp add: radians_def abs_mult) 
  have q: "\<bar>radians lat2\<bar> \<le> pi / 2" using assms(2) by (simp add: radians_def abs_mult)
  from haversine_a_bounds [OF p q, of "(radians lon2 - radians lon1) / 2"]
  show ?thesis
    by (simp add: haversine_distance_def Let_def math_sqrt_def ebind_def)
qed

lemma haversine_equator:
  assumes "0 \<le> d" "d < 6371000 * pi"
  shows "haversine_distance 0 0 0 (d / 6371000 * 180 / pi) = Inr d"
proof -
  define th where "th = d / 6371000"
  have th: "0 \<le> th" "th < pi" using assms by (simp_all add: th_def)
  have r: "radians (d / 6371000 * 180 / pi) = th" by (simp add: radians_def th_def)
  have s: "0 \<le> sin (th / 2)" using th by (intro sin_ge_zero) auto
  have c: "0 < cos (th / 2)" using th by (intro cos_gt_zero_pi) auto
  have sq: "sqrt ((sin (th / 2))\<^sup>2) = sin (th / 2)" using s by simp
  have cq: "sqrt (1 - (sin (th / 2))\<^sup>2) = cos (th / 2)"
    using c by (simp add: cos_squared_eq [symmetric])
  have at: "atan2 (sin (th / 2)) (cos (th / 2)) = th / 2"
    using c th arctan_tan [of "th / 2"] by (simp add: atan2_def tan_def)
  have le1: "(sin (th / 2))\<^sup>2 \<le> 1" by (simp add: abs_square_le_1)
  show ?thesis
    using r sq cq at le1
    by (simp add: haversine_distance_def Let_def math_sqrt_def ebind_def radians_def th_def)
qed


section \<open>Properties of the itinerary aggregator\<close>

lemma obind_Inr:
  "obind m f = (Inr y, out) \<Longrightarrow>
     \<exists>x o1 o2. m = (Inr x, o1) \<and> f x = (Inr y, o2) \<and> out = o1 @ o2"
  by (auto simp: obind_def split: prod.splits sum.splits)

lemma lift_Inr: "lift m = (Inr x, out) \<Longrightarrow> m = Inr x \<and> out = []"
  by (simp add: lift_def)

lemma format_section_totals:
  assumes "format_section step_length sec tot = (Inr tot', out)"
  shows "total_distance tot' =
           total_distance tot + (if is_public_transport sec then section_km sec else 0)"
    and "total_co2 tot' =
           total_co2 tot + (if is_public_transport sec then section_km sec * section_factor sec else 0)"
proof -
  from assms obtain ty o1 o2 where ty: "py_getitem sec ''type'' = Inr ty"
    and rest: "(if ty = JStr ''public_transport'' then
         obind (calculate_walking_distance sec) (\<lambda>d.
           let distance = d / 1000;
               tot1 = tot\<lparr>total_distance := total_distance tot + distance\<rparr>
           in obind (lift (section_mode sec)) (\<lambda>mode.
                let emission_factor = emissions_get mode;
                    tot2 = tot1\<lparr>total_co2 := total_co2 tot1 + distance * emission_factor\<rparr>
                in obind (lift (take_line sec distance)) (\<lambda>l.
                   obind (emit l) (\<lambda>_. (Inr tot2, [])))))
       else
         obind (lift (if ty = JStr ''street_network''
                      then ebind (py_getitem sec ''mode'') (\<lambda>m. Inr (m = JStr ''walking''))
                      else Inr False)) (\<lambda>walking.
           if walking then
             obind (calculate_walking_distance sec) (\<lambda>walking_distance.
               let tot1 = tot\<lparr>total_walking_distance := total_walking_distance tot + walking_distance\<rparr>
               in obind (lift (calculate_steps walking_distance step_length)) (\<lambda>steps.
                  obind (lift (section_minutes sec)) (\<lambda>mins.
                  obind (emit (PWalk mins steps (walking_distance / 1000))) (\<lambda>_. (Inr tot1, [])))))
           else
             obind (lift (py_getitem sec ''type'')) (\<lambda>ty'.
               if ty' = JStr ''waiting'' then
                 obind (lift (section_minutes sec)) (\<lambda>mins.
                 obind (emit (PWait mins)) (\<lambda>_. (Inr tot, [])))
               else (Inr tot, [])))) = (Inr tot', o2)"
    unfolding format_section_def by (auto dest!: obind_Inr lift_Inr)
  show "total_distance tot' =
           total_distance tot + (if is_public_transport sec then section_km sec else 0)"
    using rest ty
    by (auto simp: is_public_transport_def section_km_def section_factor_def Let_def emit_def
             split: if_splits dest!: obind_Inr lift_Inr)
  show "total_co2 tot' =
           total_co2 tot + (if is_public_transport sec then section_km sec * section_factor sec else 0)"
    using rest ty
    by (auto simp: is_public_transport_def section_km_def section_factor_def Let_def emit_def
             split: if_splits dest!: obind_Inr lift_Inr)
qed

lemma format_sections_totals:
  "format_sections step_length secs tot = (Inr tot', out) \<Longrightarrow>
     total_distance tot' = total_distance tot + transit_km secs \<and>
     total_co2 tot' = total_co2 tot + transit_co2 secs"
proof (induction secs arbitrary: tot out)
  case Nil
  then show ?case by (simp add: transit_km_def transit_co2_def)
next
  case (Cons sec secs)
  from Cons.prems obtain t1 o1 o2 where a: "format_section step_length sec tot = (Inr t1, o1)"
    and b: "format_sections step_length secs t1 = (Inr tot', o2)"
    by (auto dest!: obind_Inr)
  from Cons.IH [OF b] format_section_totals [OF a]
  show ?case by (simp add: transit_km_def transit_co2_def)
qed


lemma emit_Inr: "emit l = (Inr x, out) \<Longrightarrow> out = [l]"
  by (simp add: emit_def)

lemma emissions_car: "emissions_item ''Car'' = Inr 206"
  by (simp add: emissions_item_def EMISSIONS_def)

lemma emissions_bus: "emissions_get ''Bus'' = 95.3"
  by (simp add: emissions_get_def EMISSIONS_def)

text \<open>
  C4: when \<open>format_itinerary_with_steps\<close> reaches its summary, the journey distance it
  reports is the sum of the public transport sections' distances in km, the transit CO2 is the
  sum of distance times emission factor, the car CO2 is the journey distance times 206.0 and
  the CO2 saved is their difference. For a single \<open>Bus\<close> section of 2 km this gives
  190.6 g, 412.0 g and 221.4 g.
\<close>

theorem format_itinerary_co2:
  assumes run: "format_itinerary_with_steps journey_data step_length = (Inr (), out)"
    and js: "py_get journey_data ''journeys'' = Inr js" "truthy js"
    and secs: "first_journey_sections journey_data = Inr secs"
  shows "\<exists>steps km.
           out \<noteq> [] \<and>
           last out = PSummary steps km (transit_km secs) (transit_co2 secs)
                        (transit_km secs * 206) (transit_km secs * 206 - transit_co2 secs) \<and>
           (\<forall>s. secs = [s] \<and> is_public_transport s \<and>
                 fst (calculate_walking_distance s) = Inr 2000 \<and> section_mode s = Inr ''Bus''
                 \<longrightarrow> last out = PSummary steps km 2 190.6 412 221.4)"
proof -
  from run js secs obtain tot total_steps o1 where
    f: "format_sections step_length secs
          \<lparr>total_walking_distance = 0, total_distance = 0, total_co2 = 0\<rparr> = (Inr tot, o1)"
    and o: "out \<noteq> []" "last out = PSummary total_steps (total_walking_distance tot / 1000)
               (total_distance tot) (total_co2 tot) (total_distance tot * 206)
               (total_distance tot * 206 - total_co2 tot)"
    unfolding format_itinerary_with_steps_def first_journey_sections_def
    by (auto simp: emissions_car Let_def ebind_def
             dest!: obind_Inr lift_Inr emit_Inr split: sum.splits)
  from format_sections_totals [OF f]
  have t: "total_distance tot = transit_km secs" "total_co2 tot = transit_co2 secs" by simp_all
  have inst: "\<And>s. secs = [s] \<Longrightarrow> is_public_transport s \<Longrightarrow>
       fst (calculate_walking_distance s) = Inr 2000 \<Longrightarrow> section_mode s = Inr ''Bus'' \<Longrightarrow>
       transit_km secs = 2 \<and> transit_co2 secs = 190.6"
    by (simp add: transit_km_def transit_co2_def section_km_def section_factor_def emissions_bus)
  show ?thesis
    using o t inst by (intro exI [of _ total_steps] exI [of _ "total_walking_distance tot / 1000"]) auto
qed


lemma float_literals:
  "float_of_string ''48.85'' = FloatValue 48.85" "float_of_string ''2.36'' = FloatValue 2.36"
  "float_of_string ''48.86'' = FloatValue 48.86" "float_of_string ''2.35'' = FloatValue 2.35"
proof -
  have "\<bar>4885 / 100 :: real\<bar> \<le> 2 ^ 1000" "\<bar>236 / 100 :: real\<bar> \<le> 2 ^ 1000"
    "\<bar>4886 / 100 :: real\<bar> \<le> 2 ^ 1000" "\<bar>235 / 100 :: real\<bar> \<le> 2 ^ 1000"
    by simp_all
  note f = this [THEN b64_round_finite]
  show "float_of_string ''48.85'' = FloatValue 48.85"
    using f(1)
    by (simp add: float_of_string_def strip_def is_space_def is_digit_def digits_val_def
                  digit_val_def parse_exponent_def lower_def)
  show "float_of_string ''2.36'' = FloatValue 2.36"
    using f(2)
    by (simp add: float_of_string_def strip_def is_space_def is_digit_def digits_val_def
                  digit_val_def parse_exponent_def lower_def)
  show "float_of_string ''48.86'' = FloatValue 48.86"
    using f(3)
    by (simp add: float_of_string_def strip_def is_space_def is_digit_def digits_val_def
                  digit_val_def parse_exponent_def lower_def)
  show "float_of_string ''2.35'' = FloatValue 2.35"
    using f(4)
    by (simp add: float_of_string_def strip_def is_space_def is_digit_def digits_val_def
                  digit_val_def parse_exponent_def lower_def)
qed

text \<open>Digit groups, the literals for infinity and NaN, the no-break space.\<close>

lemma float_of_string_examples:
  "float_of_string ''1_0'' = FloatValue 10" "float_of_string ''1__0'' = FloatError"
  "float_of_string ''nan'' = FloatSpecial" "float_of_string ''-inf'' = FloatSpecial"
  "float_of_string ''abc'' = FloatError"
proof -
  have "\<bar>10 :: real\<bar> \<le> 2 ^ 1000" by simp
  note f = this [THEN b64_round_finite]
  show "float_of_string ''1_0'' = FloatValue 10"
    using f
    by (simp add: float_of_string_def strip_def is_space_def is_digit_def digits_val_def
                  digit_val_def parse_exponent_def lower_def)
  show "float_of_string ''1__0'' = FloatError" "float_of_string ''nan'' = FloatSpecial"
    "float_of_string ''-inf'' = FloatSpecial" "float_of_string ''abc'' = FloatError"
    by (simp_all add: float_of_string_def strip_def is_space_def is_digit_def digits_val_def
                  digit_val_def parse_exponent_def lower_def)
qed

lemma str_split_no_break_space:
  "str_split [CHR ''B'', CHR ''u'', CHR ''s'', CHR 0xA0, CHR ''A''] = [''Bus'', ''A'']"
  by (simp add: str_split_def is_space_def)

text \<open>The lookup by first token, and the factor 0 of a mode the table does not have.\<close>

lemma section_mode_first_token:
  "section_mode (JObj [(''display_informations'', JObj [(''physical_mode'', JStr ''RER A'')])])
     = Inr ''RER''"
  by (simp add: section_mode_def ebind_def str_split_def list_getitem0_def is_space_def)

lemma emissions_get_values:
  "emissions_get ''RER'' = 3.8" "emissions_get ''Funicular'' = 0"
  by (simp_all add: emissions_get_def EMISSIONS_def)

text \<open>
  C7 holds for a mode with at least one token, but not for a missing or empty one: the
  default \<open>''\<close> of \<open>.get('physical_mode', '')\<close> splits into no token, and
  \<open>[0]\<close> raises \<open>IndexError\<close>, which nothing catches. The run below is a public
  transport section whose \<open>display_informations\<close> has no \<open>physical_mode\<close>.
\<close>

theorem format_itinerary_missing_mode_raises:
  "fst (format_itinerary_with_steps (single_journey section_without_mode) 0.7038) = Inl IndexError"
proof -
  obtain d where d: "haversine_distance 48.85 2.36 48.86 2.35 = Inr d"
    using haversine_defined [of "48.85" "48.86" "2.36" "2.35"] by auto
  have w: "calculate_walking_distance section_without_mode = (Inr d, [])"
    using d
    by (simp add: section_without_mode_def calculate_walking_distance_def
                  walking_distance_body_def endpoint_coord_def
                  ebind_def py_get_def stop_endpoint_def float_literals)
  have m: "section_mode section_without_mode = Inl IndexError"
    by (simp add: section_without_mode_def section_mode_def ebind_def str_split_def
                  list_getitem0_def)
  have ty: "py_getitem section_without_mode ''type'' = Inr (JStr ''public_transport'')"
    by (simp add: section_without_mode_def)
  have fs: "format_section sl section_without_mode tot = (Inl IndexError, [])" for tot sl
    by (simp add: format_section_def obind_def lift_def w m ty Let_def)
  show ?thesis
    by (simp add: format_itinerary_with_steps_def single_journey_def obind_def lift_def
                  emit_def py_get_def ebind_def fs)
qed

lemma bus_section_2km_format:
  "format_section sl bus_section_2km tot =
      (Inr (tot\<lparr>total_distance := total_distance tot + 2, total_co2 := total_co2 tot + 2 * 95.3\<rparr>),
       [PTake (JStr ''Bus'') (JStr ''38'') (JStr ''A'') (JStr ''B'') 10 2])"
proof -
  have h: "haversine_distance 0 0 0 (2000 / 6371000 * 180 / pi) = Inr 2000"
    using haversine_equator [of 2000] pi_ge_two by simp
  then have h': "haversine_distance 0 0 0 (360 / (6371 * pi)) = Inr 2000" by simp
  have w: "calculate_walking_distance bus_section_2km = (Inr 2000, [])"
    using h'
    by (simp add: bus_section_2km_def calculate_walking_distance_def walking_distance_body_def
                  endpoint_coord_def ebind_def py_get_def stop_endpoint_def)
  have m: "section_mode bus_section_2km = Inr ''Bus''"
    by (simp add: bus_section_2km_def section_mode_def ebind_def str_split_def
                  list_getitem0_def is_space_def)
  have tl: "take_line bus_section_2km 2 =
              Inr (PTake (JStr ''Bus'') (JStr ''38'') (JStr ''A'') (JStr ''B'') 10 2)"
    by (simp add: bus_section_2km_def take_line_def ebind_def section_minutes_def
                  stop_endpoint_def)
  have ty: "py_getitem bus_section_2km ''type'' = Inr (JStr ''public_transport'')"
    by (simp add: bus_section_2km_def)
  show ?thesis
    by (simp add: format_section_def obind_def lift_def emit_def w m tl ty Let_def emissions_bus)
qed

lemma bus_journey_output:
  "format_itinerary_with_steps (single_journey bus_section_2km) 0.7038 =
     (Inr (), [POptimalHeader, PDuration 10,
               PTake (JStr ''Bus'') (JStr ''38'') (JStr ''A'') (JStr ''B'') 10 2,
               PSummary 0 0 2 190.6 412 221.4])"
  by (simp add: format_itinerary_with_steps_def single_journey_def obind_def lift_def
                emit_def py_get_def ebind_def bus_section_2km_format calculate_steps_def
                py_int_def emissions_car)

theorem format_itinerary_co2_witness:
  "format_itinerary_with_steps (single_journey bus_section_2km) 0.7038 =
     (Inr (), [POptimalHeader, PDuration 10,
               PTake (JStr ''Bus'') (JStr ''38'') (JStr ''A'') (JStr ''B'') 10 2,
               PSummary 0 0 2 190.6 412 221.4]) \<and>
   first_journey_sections (single_journey bus_section_2km) = Inr [bus_section_2km] \<and>
   is_public_transport bus_section_2km \<and>
   fst (calculate_walking_distance bus_section_2km) = Inr 2000 \<and>
   section_mode bus_section_2km = Inr ''Bus'' \<and>
   (\<exists>steps km.
      last [POptimalHeader, PDuration 10,
            PTake (JStr ''Bus'') (JStr ''38'') (JStr ''A'') (JStr ''B'') 10 2,
            PSummary 0 0 2 190.6 412 221.4] = PSummary steps km 2 190.6 412 221.4)"
proof -
  have js: "py_get (single_journey bus_section_2km) ''journeys'' =
              Inr (JList [JObj [(''duration'', JInt 600), (''sections'', JList [bus_section_2km])]])"
    by (simp add: single_journey_def py_get_def)
  have tr: "truthy (JList [JObj [(''duration'', JInt 600), (''sections'', JList [bus_section_2km])]])"
    by simp
  have secs: "first_journey_sections (single_journey bus_section_2km) = Inr [bus_section_2km]"
    by (simp add: first_journey_sections_def single_journey_def ebind_def)
  have pt: "is_public_transport bus_section_2km"
    by (simp add: is_public_transport_def bus_section_2km_def)
  have w: "fst (calculate_walking_distance bus_section_2km) = Inr 2000"
    using bus_section_2km_format [of 1 "\<lparr>total_walking_distance = 0, total_distance = 0, total_co2 = 0\<rparr>"]
    by (auto simp: format_section_def Let_def pt [unfolded is_public_transport_def] lift_def
             dest!: obind_Inr)
  have m: "section_mode bus_section_2km = Inr ''Bus''"
    by (simp add: bus_section_2km_def section_mode_def ebind_def str_split_def
                  list_getitem0_def is_space_def)
  from format_itinerary_co2 [OF bus_journey_output js tr secs] pt w m
  have "\<exists>steps km.
      last [POptimalHeader, PDuration 10,
            PTake (JStr ''Bus'') (JStr ''38'') (JStr ''A'') (JStr ''B'') 10 2,
            PSummary 0 0 2 190.6 412 221.4] = PSummary steps km 2 190.6 412 221.4"
    by blast
  with bus_journey_output secs pt w m show ?thesis by blast
qed

section \<open>Properties of the route search\<close>

subsection \<open>Comparison of floats\<close>






subsection \<open>The running update keeps the first itinerary of minimal score\<close>



subsection \<open>The generator and the walking sections\<close>

lemma is_walking_section_iff:
  "is_walking_section sec = Inr True \<longleftrightarrow> walking_section sec"
  by (auto simp: is_walking_section_def walking_section_def ebind_def split: sum.splits if_splits)

lemma section_readable_walking:
  assumes "section_readable sec"
  shows "is_walking_section sec = Inr (walking_section sec)"
    and "walking_section sec \<Longrightarrow> \<exists>d out. calculate_walking_distance sec = (Inr d, out)"
proof -
  show "is_walking_section sec = Inr (walking_section sec)"
    using assms
    by (auto simp: section_readable_def is_walking_section_def walking_section_def ebind_def
             split: sum.splits if_splits)
  show "\<exists>d out. calculate_walking_distance sec = (Inr d, out)" if "walking_section sec"
    using assms that
    by (cases "calculate_walking_distance sec")
       (auto simp: section_readable_def walking_section_def split: sum.splits if_splits)
qed


lemma walking_terms_readable:
  "list_all section_readable secs \<Longrightarrow>
     \<exists>out. walking_terms secs = (Inr (map section_metres (filter walking_section secs)), out)"
proof (induction secs)
  case Nil
  show ?case by simp
next
  case (Cons sec secs)
  then have r: "section_readable sec" and rest: "list_all section_readable secs" by simp_all
  from Cons.IH [OF rest] obtain out where
    ih: "walking_terms secs = (Inr (map section_metres (filter walking_section secs)), out)"
    by blast
  show ?case
  proof (cases "walking_section sec")
    case True
    from section_readable_walking(2) [OF r True] obtain d o1 where
      d: "calculate_walking_distance sec = (Inr d, o1)" by blast
    then have m: "section_metres sec = b64_round d" by (simp add: section_metres_def)
    show ?thesis
      using section_readable_walking(1) [OF r] True d m ih
      by (simp add: obind_def lift_def walking_distance_float_def)
  next
    case False
    then show ?thesis
      using section_readable_walking(1) [OF r] ih by (simp add: obind_def lift_def)
  qed
qed


lemma journey_walking_distance_scoreable:
  assumes "scoreable journey"
  shows "\<exists>out. journey_walking_distance py_sum journey = (Inr (walking_total py_sum journey), out)"
proof -
  from assms obtain secs where s: "ebind (py_getitem journey ''sections'') py_iter = Inr secs"
    and r: "list_all section_readable secs"
    by (auto simp: scoreable_def split: sum.splits)
  from walking_terms_readable [OF r] obtain out where
    "walking_terms secs = (Inr (map section_metres (filter walking_section secs)), out)" by blast
  then show ?thesis
    using s by (simp add: journey_walking_distance_def walking_total_def sections_of_def
                          obind_def lift_def)
qed


subsection \<open>The search as a running update over the scored itineraries\<close>


lemma score_journeys_all_scoreable:
  "list_all scoreable js \<Longrightarrow> fst (score_journeys py_sum td js st) = None"
proof (induction js arbitrary: st)
  case Nil
  show ?case by simp
next
  case (Cons j js)
  then have s: "scoreable j" and rest: "list_all scoreable js" by simp_all
  from journey_walking_distance_scoreable [OF s, of py_sum] obtain out where
    w: "journey_walking_distance py_sum j = (Inr (walking_total py_sum j), out)" by blast
  show ?case using w Cons.IH [OF rest] by (simp add: Let_def)
qed








subsection \<open>The three ways \<open>find_best_route\<close> ends\<close>




lemma find_best_route_loops:
  assumes "calculate_distance_from_steps_b64 target_steps step_length = Inr td"
    and "sort_stations (from_lat g) (from_lon g) from_stations = Inr fs"
    and "sort_stations (to_lat g) (to_lon g) to_stations = Inr ts"
  shows "find_best_route py_sum http g from_stations to_stations target_steps step_length api_key =
     \<lparr>returned =
        (case fst (loop_from_stations py_sum http api_key g td (select_stations target_steps fs)
                     (select_stations target_steps ts) (initial_state target_steps)) of
           Some e \<Rightarrow> Inl e
         | None \<Rightarrow> Inr (best_journey (snd (loop_from_stations py_sum http api_key g td
                     (select_stations target_steps fs) (select_stations target_steps ts)
                     (initial_state target_steps))))),
      from_stations_after = fs, to_stations_after = ts,
      out_lines = printed (snd (loop_from_stations py_sum http api_key g td
                     (select_stations target_steps fs) (select_stations target_steps ts)
                     (initial_state target_steps)))\<rparr>"
  using assms by (auto simp: find_best_route_def Let_def split: prod.splits option.splits)



subsection \<open>Which exceptions the evaluation of a pair can raise\<close>
























subsection \<open>Sorting the stations\<close>

lemma haversine_symmetric:
  "haversine_distance lat1 lon1 lat2 lon2 = haversine_distance lat2 lon2 lat1 lon1"
proof -
  have m: "(sin ((x - y) / 2))\<^sup>2 = (sin ((y - x) / 2))\<^sup>2" for x y :: real
  proof -
    have "(x - y) / 2 = - ((y - x) / 2)" by (simp add: field_simps)
    then have "sin ((x - y) / 2) = - sin ((y - x) / 2)" by (metis sin_minus)
    then show ?thesis by simp
  qed
  show ?thesis
    unfolding haversine_distance_def Let_def
    by (simp add: m [of "radians lat2" "radians lat1"] m [of "radians lon2" "radians lon1"]
                  mult.commute)
qed

lemma station_key_equator:
  assumes "0 \<le> d" "d < 6371000 * pi"
  shows "station_key 0 0 (equator_station d) = Inr d"
  using haversine_equator [OF assms] haversine_symmetric [of 0 "d / 6371000 * 180 / pi" 0 0]
  by (simp add: station_key_def station_coord_def equator_station_def station_def ebind_def)

lemma map_exn_Inr:
  "map_exn f xs = Inr ys \<Longrightarrow> list_all2 (\<lambda>x y. f x = Inr y) xs ys"
  by (induction xs arbitrary: ys) (auto simp: ebind_def split: sum.splits)

lemma map_exn_map_snd:
  "\<forall>p \<in> set l. f (snd p) = Inr (fst p) \<Longrightarrow> map_exn f (map snd l) = Inr (map fst l)"
  by (induction l) (auto simp: ebind_def)

lemma sort_stations_props:
  assumes "sort_stations lat lon xs = Inr ys"
  shows "mset ys = mset xs"
    and "\<exists>ks. map_exn (station_key lat lon) ys = Inr ks \<and> sorted ks"
proof -
  from assms obtain ks where ks: "map_exn (station_key lat lon) xs = Inr ks"
    and ys: "ys = map snd (sort_key fst (zip ks xs))"
    by (auto simp: sort_stations_def ebind_def split: sum.splits)
  from map_exn_Inr [OF ks] have l2: "list_all2 (\<lambda>x y. station_key lat lon x = Inr y) xs ks" .
  then have len: "length ks = length xs" by (simp add: list_all2_lengthD)
  have "mset ys = mset (map snd (zip ks xs))"
    unfolding ys by (simp only: mset_map mset_sort)
  then show "mset ys = mset xs" using len by simp
  have "\<forall>p \<in> set (zip ks xs). station_key lat lon (snd p) = Inr (fst p)"
    using l2 by (auto simp: list_all2_conv_all_nth in_set_zip)
  then have "\<forall>p \<in> set (sort_key fst (zip ks xs)). station_key lat lon (snd p) = Inr (fst p)"
    by simp
  from map_exn_map_snd [OF this]
  have "map_exn (station_key lat lon) ys = Inr (map fst (sort_key fst (zip ks xs)))"
    by (simp add: ys)
  moreover have "sorted (map fst (sort_key fst (zip ks xs)))" by (rule sorted_sort_key)
  ultimately show "\<exists>ks. map_exn (station_key lat lon) ys = Inr ks \<and> sorted ks" by blast
qed



lemma station_coord_equator:
  "station_coord (equator_station d) ''lat'' = Inr 0"
  "station_coord (equator_station d) ''lon'' = Inr (d / 6371000 * 180 / pi)"
  by (simp_all add: station_coord_def equator_station_def station_def ebind_def)



lemma pair_response_near_near:
  "pair_response http ''key'' origin_env (equator_station 0) (equator_station 0) =
     obind (Inr (), [PEvaluating 0 0]) (\<lambda>_. get_itinerary http ''key'' 0 0 0 0)"
proof -
  have h: "haversine_distance 0 0 0 0 = Inr 0" using haversine_equator [of 0] by simp
  show ?thesis
    by (simp add: pair_response_def station_coord_equator h obind_def lift_def emit_def
                  origin_env_def)
qed

lemma pair_response_near_far:
  "pair_response http ''key'' origin_env (equator_station 0) (equator_station 2000) =
     obind (Inr (), [PEvaluating 0 2])
       (\<lambda>_. get_itinerary http ''key'' 0 0 0 (2000 / 6371000 * 180 / pi))"
proof -
  have h: "haversine_distance 0 0 0 0 = Inr 0" using haversine_equator [of 0] by simp
  have h2: "haversine_distance 0 (2000 / 6371000 * 180 / pi) 0 0 = Inr 2000"
    using haversine_equator [of 2000] haversine_symmetric [of 0 "2000 / 6371000 * 180 / pi" 0 0]
      pi_ge_two by simp
  then have h2': "haversine_distance 0 (360 / (6371 * pi)) 0 0 = Inr 2000" by simp
  show ?thesis
    by (simp add: pair_response_def station_coord_equator h h2' obind_def lift_def emit_def
                  origin_env_def)
qed

lemma three_journeys_list:
  "py_get three_journeys ''journeys'' =
     Inr (JList [walk_journey 500, walk_journey 1500, walk_journey 2600])"
  "ebind (py_getitem three_journeys ''journeys'') py_iter =
     Inr [walk_journey 500, walk_journey 1500, walk_journey 2600]"
  by (simp_all add: three_journeys_def py_get_def ebind_def)

subsection \<open>Floats of the examples\<close>


lemma b64_round_examples:
  "b64_round 500 = Fin 500" "b64_round 1500 = Fin 1500" "b64_round 2600 = Fin 2600"
  "b64_round 1400 = Fin 1400" "b64_round (- 900) = Fin (- 900)" "b64_round 100 = Fin 100"
  "b64_round 1200 = Fin 1200" "b64_round 1000 = Fin 1000" "b64_round 2800 = Fin 2800"
  "b64_round 3000 = Fin 3000" "b64_round 3001 = Fin 3001" "b64_round 2000 = Fin 2000"
  using b64_round_int [of 500] b64_round_int [of 1500] b64_round_int [of 2600]
    b64_round_int [of 1400] b64_round_int [of "- 900"] b64_round_int [of 100]
    b64_round_int [of 1200] b64_round_int [of 1000] b64_round_int [of 2800]
    b64_round_int [of 3000] b64_round_int [of 3001] b64_round_int [of 2000]
  by simp_all

lemma target_of_small_steps:
  assumes "\<bar>n\<bar> < 2 ^ 53"
  shows "calculate_distance_from_steps_b64 n s = Inr (b64_mul (Fin (of_int n)) s)"
  using b64_round_int [OF assms]
  by (simp add: calculate_distance_from_steps_b64_def b64_of_int_def ebind_def)

lemma targets:
  "calculate_distance_from_steps_b64 2800 (Fin (1 / 2)) = Inr (Fin 1400)"
  "calculate_distance_from_steps_b64 3000 (Fin 1) = Inr (Fin 3000)"
  "calculate_distance_from_steps_b64 3001 (Fin 1) = Inr (Fin 3001)"
  "calculate_distance_from_steps_b64 1000 (Fin 1) = Inr (Fin 1000)"
  using target_of_small_steps [of 2800 "Fin (1 / 2)"] target_of_small_steps [of 3000 "Fin 1"]
    target_of_small_steps [of 3001 "Fin 1"] target_of_small_steps [of 1000 "Fin 1"]
  by (simp_all add: b64_round_examples)


subsection \<open>A query that fails\<close>


lemma haversine_to_origin:
  assumes "0 \<le> d" "d < 6371000 * pi"
  shows "haversine_distance 0 (d / 6371000 * 180 / pi) 0 0 = Inr d"
  using haversine_equator [OF assms] haversine_symmetric [of 0 "d / 6371000 * 180 / pi" 0 0]
  by simp

lemma pair_response_equator:
  assumes "0 \<le> a" "a < 6371000 * pi" "0 \<le> b" "b < 6371000 * pi"
  shows "pair_response http api_key origin_env (equator_station a) (equator_station b) =
           obind (Inr (), [PEvaluating (a / 1000) (b / 1000)])
             (\<lambda>_. get_itinerary http api_key 0 (a / 6371000 * 180 / pi)
                                          0 (b / 6371000 * 180 / pi))"
  using haversine_equator [OF assms(1,2)] haversine_to_origin [OF assms(3,4)]
  by (simp add: pair_response_def station_coord_equator obind_def lift_def emit_def
                origin_env_def)


subsection \<open>The lists after the call\<close>




subsection \<open>The stations that are selected\<close>

lemma select_stations_slice: "select_stations target_steps xs = selected_slice target_steps xs"
  by (simp add: select_stations_def selected_slice_def MAX_STATIONS_def)

lemma map_exn_nth:
  "map_exn f xs = Inr ys \<Longrightarrow> i < length xs \<Longrightarrow> f (xs ! i) = Inr (ys ! i)"
  using map_exn_Inr [of f xs ys] by (simp add: list_all2_conv_all_nth)

lemma map_exn_length: "map_exn f xs = Inr ys \<Longrightarrow> length ys = length xs"
  using map_exn_Inr [of f xs ys] by (simp add: list_all2_lengthD)

lemma sorted_keys_not_farther:
  assumes ks: "map_exn (station_key lat lon) xs = Inr ks" and s: "sorted ks"
    and y: "y \<in> set (take n xs)" and x: "x \<in> set (drop n xs)"
  shows "not_farther lat lon y x"
proof -
  from y obtain i where i: "i < n" "i < length xs" "y = xs ! i"
    by (auto simp: in_set_conv_nth)
  from x obtain j where "j < length xs - n" "x = xs ! (n + j)"
    by (auto simp: in_set_conv_nth)
  then have j: "n + j < length xs" "x = xs ! (n + j)" by simp_all
  have len: "length ks = length xs" by (rule map_exn_length [OF ks])
  have "ks ! i \<le> ks ! (n + j)"
    using s i j len by (intro sorted_nth_mono) simp_all
  moreover have "station_key lat lon y = Inr (ks ! i)"
    using map_exn_nth [OF ks i(2)] i(3) by simp
  moreover have "station_key lat lon x = Inr (ks ! (n + j))"
    using map_exn_nth [OF ks j(1)] j(2) by simp
  ultimately show ?thesis by (simp add: not_farther_def)
qed

text \<open>
  C2: \<open>find_best_route\<close> sorts its two lists and runs its loops over a slice of each:
  when a sorted list is longer than \<open>MAX_STATIONS = 10\<close>, the slice has ten stations;
  for a target above 3000 steps it is the tail of the sorted list, so that no station left out
  is farther than a selected one, and for a target of at most 3000 steps (3000 included) it is
  the head, so that no selected station is farther than one left out. What the function
  returns and prints is what the loops over the two slices return and print.
\<close>

theorem find_best_route_selection:
  assumes td: "calculate_distance_from_steps_b64 target_steps step_length = Inr td"
    and fs: "sort_stations (from_lat g) (from_lon g) from_stations = Inr fs"
    and ts: "sort_stations (to_lat g) (to_lon g) to_stations = Inr ts"
    and lf: "MAX_STATIONS < length fs" and lt: "MAX_STATIONS < length ts"
    and l: "l = loop_from_stations py_sum http api_key g td (selected_slice target_steps fs)
                  (selected_slice target_steps ts) (initial_state target_steps)"
    and r: "r = find_best_route py_sum http g from_stations to_stations target_steps step_length
                  api_key"
  shows "MAX_STATIONS = 10 \<and>
         length (selected_slice target_steps fs) = 10 \<and>
         length (selected_slice target_steps ts) = 10 \<and>
         returned r = (case fst l of Some e \<Rightarrow> Inl e | None \<Rightarrow> Inr (best_journey (snd l))) \<and>
         out_lines r = printed (snd l) \<and>
         (3000 < target_steps \<longrightarrow>
            selected_slice target_steps fs = drop (length fs - 10) fs \<and>
            selected_slice target_steps ts = drop (length ts - 10) ts \<and>
            (\<forall>x \<in> set (drop (length fs - 10) fs). \<forall>y \<in> set (take (length fs - 10) fs).
               not_farther (from_lat g) (from_lon g) y x) \<and>
            (\<forall>x \<in> set (drop (length ts - 10) ts). \<forall>y \<in> set (take (length ts - 10) ts).
               not_farther (to_lat g) (to_lon g) y x)) \<and>
         (target_steps \<le> 3000 \<longrightarrow>
            selected_slice target_steps fs = take 10 fs \<and>
            selected_slice target_steps ts = take 10 ts \<and>
            (\<forall>x \<in> set (take 10 fs). \<forall>y \<in> set (drop 10 fs).
               not_farther (from_lat g) (from_lon g) x y) \<and>
            (\<forall>x \<in> set (take 10 ts). \<forall>y \<in> set (drop 10 ts).
               not_farther (to_lat g) (to_lon g) x y))"
proof -
  have m: "MAX_STATIONS = 10" by (simp add: MAX_STATIONS_def)
  have len: "length (selected_slice target_steps fs) = 10"
    "length (selected_slice target_steps ts) = 10"
    using lf lt by (simp_all add: selected_slice_def MAX_STATIONS_def)
  have ret: "returned r = (case fst l of Some e \<Rightarrow> Inl e | None \<Rightarrow> Inr (best_journey (snd l)))"
    and out: "out_lines r = printed (snd l)"
    unfolding r l find_best_route_loops [OF td fs ts] select_stations_slice by simp_all
  from sort_stations_props(2) [OF fs] obtain kf where
    kf: "map_exn (station_key (from_lat g) (from_lon g)) fs = Inr kf" "sorted kf" by blast
  from sort_stations_props(2) [OF ts] obtain kt where
    kt: "map_exn (station_key (to_lat g) (to_lon g)) ts = Inr kt" "sorted kt" by blast
  have far: "\<forall>x \<in> set (drop n fs). \<forall>y \<in> set (take n fs).
               not_farther (from_lat g) (from_lon g) y x"
       "\<forall>x \<in> set (drop n ts). \<forall>y \<in> set (take n ts).
               not_farther (to_lat g) (to_lon g) y x" for n
    using sorted_keys_not_farther [OF kf] sorted_keys_not_farther [OF kt] by blast+
  have hi: "3000 < target_steps \<longrightarrow>
            selected_slice target_steps fs = drop (length fs - 10) fs \<and>
            selected_slice target_steps ts = drop (length ts - 10) ts \<and>
            (\<forall>x \<in> set (drop (length fs - 10) fs). \<forall>y \<in> set (take (length fs - 10) fs).
               not_farther (from_lat g) (from_lon g) y x) \<and>
            (\<forall>x \<in> set (drop (length ts - 10) ts). \<forall>y \<in> set (take (length ts - 10) ts).
               not_farther (to_lat g) (to_lon g) y x)"
    using far [of "length fs - 10"] far [of "length ts - 10"] by (simp add: selected_slice_def)
  have lo: "target_steps \<le> 3000 \<longrightarrow>
            selected_slice target_steps fs = take 10 fs \<and>
            selected_slice target_steps ts = take 10 ts \<and>
            (\<forall>x \<in> set (take 10 fs). \<forall>y \<in> set (drop 10 fs).
               not_farther (from_lat g) (from_lon g) x y) \<and>
            (\<forall>x \<in> set (take 10 ts). \<forall>y \<in> set (drop 10 ts).
               not_farther (to_lat g) (to_lon g) x y)"
    using far [of 10] by (simp add: selected_slice_def)
  from m len ret out hi lo show ?thesis by blast
qed

lemma station_keys_eleven:
  "map_exn (station_key 0 0) (rev eleven_stations) =
     Inr [10000, 9000, 8000, 7000, 6000, 5000, 4000, 3000, 2000, 1000, 0]"
proof -
  have k: "station_key 0 0 (equator_station d) = Inr d" if "d \<in> set [0, 1000, 2000, 3000, 4000,
      5000, 6000, 7000, 8000, 9000, 10000]" for d
    using that station_key_equator [of d] pi_ge_two by auto
  show ?thesis by (simp add: eleven_stations_def ebind_def k)
qed

lemma sort_eleven: "sort_stations 0 0 (rev eleven_stations) = Inr eleven_stations"
  unfolding sort_stations_def station_keys_eleven
  by (simp add: ebind_def eleven_stations_def)

lemma try_pair_failing_http_lines:
  assumes "0 \<le> a" "a < 6371000 * pi" "0 \<le> b" "b < 6371000 * pi"
  shows "try_pair py_sum failing_http api_key origin_env td
           (equator_station a) (equator_station b) st =
         (None, st\<lparr>printed := printed st @ failed_query_lines (a, b)\<rparr>)"
proof -
  have "pair_response failing_http api_key origin_env (equator_station a) (equator_station b) =
          (Inl RequestException,
           [PEvaluating (a / 1000) (b / 1000), PErrorFetching RequestException])"
    by (simp add: pair_response_equator [OF assms] obind_def get_itinerary_def failing_http_def)
  then show ?thesis
    by (simp add: try_pair_def pair_body_def failed_query_lines_def)
qed

lemma loop_to_failing_http:
  assumes "0 \<le> a" "a < 6371000 * pi" and "\<forall>b \<in> set bs. 0 \<le> b \<and> b < 6371000 * pi"
  shows "loop_to_stations py_sum failing_http api_key origin_env td
           (equator_station a) (map equator_station bs) st =
         (None, st\<lparr>printed := printed st @ concat (map (\<lambda>b. failed_query_lines (a, b)) bs)\<rparr>)"
  using assms(3)
proof (induction bs arbitrary: st)
  case Nil
  show ?case by simp
next
  case (Cons b bs)
  then have b: "0 \<le> b" "b < 6371000 * pi" and rest: "\<forall>b \<in> set bs. 0 \<le> b \<and> b < 6371000 * pi"
    by simp_all
  show ?case
    by (simp add: try_pair_failing_http_lines [OF assms(1,2) b] Cons.IH [OF rest])
qed

lemma loop_from_failing_http:
  assumes "\<forall>a \<in> set as. 0 \<le> a \<and> a < 6371000 * pi"
    and "\<forall>b \<in> set bs. 0 \<le> b \<and> b < 6371000 * pi"
  shows "loop_from_stations py_sum failing_http api_key origin_env td
           (map equator_station as) (map equator_station bs) st =
         (None, st\<lparr>printed := printed st @
                   concat (map failed_query_lines (List.product as bs))\<rparr>)"
  using assms(1)
proof (induction as arbitrary: st)
  case Nil
  show ?case by simp
next
  case (Cons a as)
  then have a: "0 \<le> a" "a < 6371000 * pi" and rest: "\<forall>a \<in> set as. 0 \<le> a \<and> a < 6371000 * pi"
    by simp_all
  show ?case
    by (simp add: loop_to_failing_http [OF a assms(2)] Cons.IH [OF rest] map_concat comp_def)
qed

theorem find_best_route_selection_witness:
  "out_lines (find_best_route sum_left_to_right failing_http origin_env (rev eleven_stations)
                (rev eleven_stations) 3001 (Fin 1) ''key'') =
     PFarthestMode 10 #
     concat (map failed_query_lines
               (List.product [1000, 2000, 3000, 4000, 5000, 6000, 7000, 8000, 9000, 10000]
                             [1000, 2000, 3000, 4000, 5000, 6000, 7000, 8000, 9000, 10000])) \<and>
   out_lines (find_best_route sum_left_to_right failing_http origin_env (rev eleven_stations)
                (rev eleven_stations) 3000 (Fin 1) ''key'') =
     PClosestMode 10 #
     concat (map failed_query_lines
               (List.product [0, 1000, 2000, 3000, 4000, 5000, 6000, 7000, 8000, 9000]
                             [0, 1000, 2000, 3000, 4000, 5000, 6000, 7000, 8000, 9000])) \<and>
   returned (find_best_route sum_left_to_right failing_http origin_env (rev eleven_stations)
                (rev eleven_stations) 3001 (Fin 1) ''key'') = Inr None \<and>
   sort_stations 0 0 (rev eleven_stations) = Inr eleven_stations \<and>
   MAX_STATIONS < length eleven_stations"
proof -
  have s: "sort_stations (from_lat origin_env) (from_lon origin_env) (rev eleven_stations)
             = Inr eleven_stations"
    "sort_stations (to_lat origin_env) (to_lon origin_env) (rev eleven_stations)
             = Inr eleven_stations"
    using sort_eleven by (simp_all add: origin_env_def)
  have len: "MAX_STATIONS < length eleven_stations"
    by (simp add: eleven_stations_def MAX_STATIONS_def)
  note hi = find_best_route_selection [OF targets(3) s len len refl refl,
              of sum_left_to_right failing_http "''key''"]
  note lo = find_best_route_selection [OF targets(2) s len len refl refl,
              of sum_left_to_right failing_http "''key''"]
  have far: "selected_slice 3001 eleven_stations =
               map equator_station [1000, 2000, 3000, 4000, 5000, 6000, 7000, 8000, 9000, 10000]"
    using hi by (simp add: eleven_stations_def)
  have near: "selected_slice 3000 eleven_stations =
               map equator_station [0, 1000, 2000, 3000, 4000, 5000, 6000, 7000, 8000, 9000]"
    using lo by (simp add: eleven_stations_def)
  have r1: "\<forall>a \<in> set [1000, 2000, 3000, 4000, 5000, 6000, 7000, 8000, 9000, 10000].
              0 \<le> a \<and> a < 6371000 * pi"
    and r2: "\<forall>a \<in> set [0, 1000, 2000, 3000, 4000, 5000, 6000, 7000, 8000, 9000].
              0 \<le> a \<and> a < 6371000 * pi"
    using pi_ge_two by auto
  have a: "out_lines (find_best_route sum_left_to_right failing_http origin_env
                (rev eleven_stations) (rev eleven_stations) 3001 (Fin 1) ''key'') =
     PFarthestMode 10 #
     concat (map failed_query_lines
               (List.product [1000, 2000, 3000, 4000, 5000, 6000, 7000, 8000, 9000, 10000]
                             [1000, 2000, 3000, 4000, 5000, 6000, 7000, 8000, 9000, 10000]))"
    and c: "returned (find_best_route sum_left_to_right failing_http origin_env
                (rev eleven_stations) (rev eleven_stations) 3001 (Fin 1) ''key'') = Inr None"
    using hi unfolding far loop_from_failing_http [OF r1 r1]
    by (simp_all add: initial_state_def MAX_STATIONS_def)
  have b: "out_lines (find_best_route sum_left_to_right failing_http origin_env
                (rev eleven_stations) (rev eleven_stations) 3000 (Fin 1) ''key'') =
     PClosestMode 10 #
     concat (map failed_query_lines
               (List.product [0, 1000, 2000, 3000, 4000, 5000, 6000, 7000, 8000, 9000]
                             [0, 1000, 2000, 3000, 4000, 5000, 6000, 7000, 8000, 9000]))"
    using lo unfolding near loop_from_failing_http [OF r2 r2]
    by (simp add: initial_state_def MAX_STATIONS_def)
  from a b c sort_eleven len show ?thesis by blast
qed

subsection \<open>Which exceptions get out of the search\<close>













section \<open>The search returns the first scored itinerary of minimal score\<close>






lemma pair_itineraries_of_failure:
  assumes "fst (pair_response http api_key g (fst p) (snd p)) = Inl e"
  shows "pair_itineraries http api_key g p = []" "scored_itineraries http api_key g p = []"
  using assms by (simp_all add: pair_itineraries_def scored_itineraries_def)

subsection \<open>The example itineraries\<close>










lemma response_near_far:
  "fst (pair_response http ''key'' origin_env (equator_station 0) (equator_station 2000)) =
     fst (get_itinerary http ''key'' 0 0 0 (2000 / 6371000 * 180 / pi))"
  using pair_response_equator [of 0 2000 http "''key''"] pi_ge_two
  by (cases "get_itinerary http ''key'' 0 0 0 (2000 / 6371000 * 180 / pi)") (simp add: obind_def)






end
